theory Spec2Isabelle
  imports Complex_Main "HOL-Library.Sublist" "HOL-Library.Log_Nat"
begin

section \<open>FigJam to PowerPoint: node extraction and format conversion\<close>

text \<open>
  A shallow embedding of \<^verbatim>\<open>src/code.ts\<close> (selection walker, node extractor, paint
  normaliser) and of \<^verbatim>\<open>src/pptx-converter.ts\<close> (shape mapper, XML serialiser).

  Conventions of the embedding.
  \<^item> A JavaScript number is a rational: a double is the rational it stands for. The one
    arithmetic operation of the code, the product, is rounded to a double as IEEE 754
    does (\<open>jsTimes\<close>). \<^verbatim>\<open>NaN\<close>, the infinities and the overflow beyond the largest double
    are outside the model.
  \<^item> A property that an object may lack is an \<open>option\<close>; \<open>None\<close> is \<^verbatim>\<open>undefined\<close>.
  \<^item> Reading a property of \<^verbatim>\<open>undefined\<close> raises a \<^verbatim>\<open>TypeError\<close>; a function that can
    raise returns \<open>JSError + 'a\<close>, with \<open>Inl\<close> the exception.
  \<^item> What the JavaScript engine defines and the repository does not (the decimal text of
    a number, the text of a built-in object, the text of an exception, the text of the
    current date) is a field of the record \<open>JSRuntime\<close>, passed as the first argument.
  \<^item> Record fields carry a prefix (\<open>p_\<close> host paint, \<open>n_\<close> host node, \<open>e_\<close> extracted
    node, \<open>f_\<close>, \<open>s_\<close>, \<open>pr_\<close>, \<open>sh_\<close> shape record, \<open>pg_\<close> page), as the source's
    field names (\<^verbatim>\<open>id\<close>, \<^verbatim>\<open>x\<close>, \<^verbatim>\<open>size\<close>, \<^verbatim>\<open>text\<close>) clash with HOL names, keywords and
    variables.
\<close>

subsection \<open>JavaScript values\<close>

type_synonym number = rat

datatype JSError = TypeError

text \<open>
  A value that is either a string or a member that an object literal inherits from
  \<^verbatim>\<open>Object.prototype\<close>, named by its key.
\<close>

datatype JSValue = Str string | Inherited string

record JSRuntime =
  numberToString :: "number \<Rightarrow> string"
  inheritedToString :: "string \<Rightarrow> string"
  errorToString :: "JSError \<Rightarrow> string"
  dateToISOString :: string

text \<open>\<^verbatim>\<open>Math.round\<close>: the nearest integer, a tie going up; exact on a double.\<close>

definition Math_round :: "number \<Rightarrow> int" where
  "Math_round v = \<lfloor>v + 1 / 2\<rfloor>"

text \<open>
  The product of two doubles is the double nearest to the exact product, a tie going to
  the even significand (IEEE 754 binary64, round to nearest even). \<open>binaryExponent q\<close>
  is, for \<open>q > 0\<close>, the \<open>e\<close> with \<open>2^e \<le> q < 2^(e+1)\<close>; \<open>ulp q\<close> is the distance between
  the doubles around \<open>q\<close>: 52 binary places below the leading one, and \<open>2^-1074\<close> for the
  subnormal numbers.
\<close>

definition roundHalfEven :: "rat \<Rightarrow> int" where
  "roundHalfEven x =
     (let f = \<lfloor>x\<rfloor>; d = x - of_int f
      in if d < 1 / 2 then f else if 1 / 2 < d then f + 1 else if even f then f else f + 1)"

definition binaryExponent :: "rat \<Rightarrow> int" where
  "binaryExponent q = (if 1 \<le> q then bitlen \<lfloor>q\<rfloor> - 1 else - bitlen (\<lceil>1 / q\<rceil> - 1))"

definition ulp :: "rat \<Rightarrow> rat" where
  "ulp q = 2 powi (max (binaryExponent \<bar>q\<bar>) (- 1022) - 52)"

definition toDouble :: "rat \<Rightarrow> number" where
  "toDouble q = (if q = 0 then 0 else of_int (roundHalfEven (q / ulp q)) * ulp q)"

text \<open>\<^verbatim>\<open>a * b\<close>.\<close>

definition jsTimes :: "number \<Rightarrow> number \<Rightarrow> number" where
  "jsTimes a b = toDouble (a * b)"

text \<open>\<^verbatim>\<open>v || d\<close> on an optional number: \<^verbatim>\<open>undefined\<close> and \<^verbatim>\<open>0\<close> are falsy.\<close>

definition orNumber :: "number option \<Rightarrow> number \<Rightarrow> number" where
  "orNumber v d = (case v of None \<Rightarrow> d | Some n \<Rightarrow> if n = 0 then d else n)"

text \<open>The truthiness of an optional string: \<^verbatim>\<open>undefined\<close> and \<^verbatim>\<open>''\<close> are falsy.\<close>

definition truthyString :: "string option \<Rightarrow> bool" where
  "truthyString v = (case v of None \<Rightarrow> False | Some s \<Rightarrow> s \<noteq> [])"

text \<open>\<^verbatim>\<open>Array.prototype.map\<close> with a callback that may raise: the first exception ends it.\<close>

fun mapRaise :: "('a \<Rightarrow> JSError + 'b) \<Rightarrow> 'a list \<Rightarrow> JSError + 'b list" where
  "mapRaise f [] = Inr []"
| "mapRaise f (v # vs) =
     (case f v of
        Inl e \<Rightarrow> Inl e
      | Inr w \<Rightarrow> (case mapRaise f vs of Inl e \<Rightarrow> Inl e | Inr ws \<Rightarrow> Inr (w # ws)))"

subsection \<open>Host paints and the paint normaliser (\<^verbatim>\<open>extractFills\<close>)\<close>

datatype RGB = RGB number number number

datatype RGBA = RGBA number number number number

datatype ColorStop = ColorStop number RGBA

record Paint =
  p_type :: string
  p_visible :: "bool option"
  p_opacity :: "number option"
  p_color :: "RGB option"
  p_imageHash :: "string option"
  p_scaleMode :: "string option"
  p_gradientStops :: "ColorStop list option"

text \<open>
  The value of a \<^verbatim>\<open>fills\<close> or \<^verbatim>\<open>strokes\<close> property: the sentinel \<^verbatim>\<open>figma.mixed\<close>, a
  missing property, or an array of paints.
\<close>

datatype PaintsProp = Mixed | NoPaints | Paints "Paint list"

datatype Color = Color int int int

datatype StopColor = StopColor int int int number

datatype ExtractedStop = ExtractedStop number StopColor

datatype ExtractedPaint =
    Solid Color number
  | Image "string option" "string option" number
  | Gradient string "ExtractedStop list" number
  | Unknown

fun extractStop :: "ColorStop \<Rightarrow> ExtractedStop" where
  "extractStop (ColorStop pos (RGBA r g b a)) =
     ExtractedStop pos
       (StopColor (Math_round (jsTimes r 255)) (Math_round (jsTimes g 255))
                  (Math_round (jsTimes b 255)) a)"

definition opacityOrOne :: "Paint \<Rightarrow> number" where
  "opacityOrOne fill = (case p_opacity fill of None \<Rightarrow> 1 | Some v \<Rightarrow> v)"

definition extractPaint :: "Paint \<Rightarrow> JSError + ExtractedPaint" where
  "extractPaint fill =
     (if p_type fill = ''SOLID'' then
        (case p_color fill of
           None \<Rightarrow> Inl TypeError
         | Some (RGB r g b) \<Rightarrow>
             Inr (Solid (Color (Math_round (jsTimes r 255)) (Math_round (jsTimes g 255))
                               (Math_round (jsTimes b 255)))
                        (opacityOrOne fill)))
      else if p_type fill = ''IMAGE'' then
        Inr (Image (p_imageHash fill) (p_scaleMode fill) (opacityOrOne fill))
      else if prefix ''GRADIENT'' (p_type fill) then
        (case p_gradientStops fill of
           None \<Rightarrow> Inl TypeError
         | Some stops \<Rightarrow>
             Inr (Gradient (p_type fill) (map extractStop stops) (opacityOrOne fill)))
      else Inr Unknown)"

definition extractFills :: "PaintsProp \<Rightarrow> JSError + ExtractedPaint list" where
  "extractFills fills =
     (case fills of
        Mixed \<Rightarrow> Inr []
      | NoPaints \<Rightarrow> Inr []
      | Paints ps \<Rightarrow> mapRaise extractPaint (filter (\<lambda>fill. p_visible fill \<noteq> Some False) ps))"

definition extractStrokes :: "PaintsProp \<Rightarrow> JSError + ExtractedPaint list" where
  "extractStrokes strokes = extractFills strokes"

subsection \<open>Host nodes and the node extractor (\<^verbatim>\<open>extractNodeData\<close>)\<close>

datatype Vector = Vector number number

text \<open>A connector endpoint: \<^verbatim>\<open>position\<close> and \<^verbatim>\<open>endpointNodeId\<close>, each of which may be missing.\<close>

datatype ConnectorEndpoint = ConnectorEndpoint "Vector option" "string option"

text \<open>The text sublayer of a shape or a sticky note, with its \<^verbatim>\<open>characters\<close>.\<close>

datatype TextSublayer = TextSublayer string

text \<open>
  The properties of a host node that the extractor reads, its children apart. The first
  five and \<open>n_visible\<close> are on every node; the code asks for \<^verbatim>\<open>width\<close>, \<^verbatim>\<open>height\<close> and
  \<^verbatim>\<open>rotation\<close> with \<^verbatim>\<open>in\<close>; the others belong to some node types only.
\<close>

record SceneProps =
  n_id :: string
  n_name :: string
  n_type :: string
  n_x :: number
  n_y :: number
  n_width :: "number option"
  n_height :: "number option"
  n_rotation :: "number option"
  n_visible :: bool
  n_cornerRadius :: "number option"
  n_fills :: PaintsProp
  n_strokes :: PaintsProp
  n_strokeWeight :: "number option"
  n_pointCount :: "number option"
  n_shapeType :: "string option"
  n_text :: "TextSublayer option"
  n_characters :: "string option"
  n_connectorStart :: "ConnectorEndpoint option"
  n_connectorEnd :: "ConnectorEndpoint option"

text \<open>A host node: its properties and its \<^verbatim>\<open>children\<close> property.\<close>

datatype SceneNode = SceneNode SceneProps "SceneNode list option"

datatype ExtractedEndpoint = ExtractedEndpoint number number "string option"

text \<open>The interface \<^verbatim>\<open>ExtractedNodeData\<close>, its \<^verbatim>\<open>children\<close> apart.\<close>

record ExtractedProps =
  e_id :: string
  e_name :: string
  e_type :: string
  e_x :: number
  e_y :: number
  e_width :: number
  e_height :: number
  e_rotation :: number
  e_visible :: bool
  e_fills :: "ExtractedPaint list option"
  e_strokes :: "ExtractedPaint list option"
  e_strokeWeight :: "number option"
  e_text :: "string option"
  e_cornerRadius :: "number option"
  e_shapeType :: "string option"
  e_connectorStart :: "ExtractedEndpoint option"
  e_connectorEnd :: "ExtractedEndpoint option"

datatype ExtractedNodeData = ExtractedNodeData ExtractedProps "ExtractedNodeData list option"

text \<open>The \<^verbatim>\<open>baseData\<close> of \<^verbatim>\<open>extractNodeData\<close>.\<close>

definition baseDataOf :: "SceneProps \<Rightarrow> ExtractedProps" where
  "baseDataOf node =
     \<lparr> e_id = n_id node, e_name = n_name node, e_type = n_type node,
       e_x = n_x node, e_y = n_y node,
       e_width = (case n_width node of Some w \<Rightarrow> w | None \<Rightarrow> 0),
       e_height = (case n_height node of Some h \<Rightarrow> h | None \<Rightarrow> 0),
       e_rotation = (case n_rotation node of Some d \<Rightarrow> d | None \<Rightarrow> 0),
       e_visible = n_visible node,
       e_fills = None, e_strokes = None, e_strokeWeight = None, e_text = None,
       e_cornerRadius = None, e_shapeType = None,
       e_connectorStart = None, e_connectorEnd = None \<rparr>"

definition extractRectangleData :: "SceneProps \<Rightarrow> ExtractedProps \<Rightarrow> JSError + ExtractedProps" where
  "extractRectangleData rect baseData =
     (case extractFills (n_fills rect) of
        Inl e \<Rightarrow> Inl e
      | Inr fs \<Rightarrow>
          (case extractStrokes (n_strokes rect) of
             Inl e \<Rightarrow> Inl e
           | Inr ss \<Rightarrow>
               Inr (baseData\<lparr> e_cornerRadius := n_cornerRadius rect, e_fills := Some fs,
                              e_strokes := Some ss, e_strokeWeight := n_strokeWeight rect \<rparr>)))"

definition extractEllipseData :: "SceneProps \<Rightarrow> ExtractedProps \<Rightarrow> JSError + ExtractedProps" where
  "extractEllipseData ellipse baseData =
     (case extractFills (n_fills ellipse) of
        Inl e \<Rightarrow> Inl e
      | Inr fs \<Rightarrow>
          (case extractStrokes (n_strokes ellipse) of
             Inl e \<Rightarrow> Inl e
           | Inr ss \<Rightarrow>
               Inr (baseData\<lparr> e_fills := Some fs, e_strokes := Some ss,
                              e_strokeWeight := n_strokeWeight ellipse \<rparr>)))"

definition extractPolygonData ::
  "JSRuntime \<Rightarrow> SceneProps \<Rightarrow> ExtractedProps \<Rightarrow> JSError + ExtractedProps" where
  "extractPolygonData rt polygon baseData =
     (case extractFills (n_fills polygon) of
        Inl e \<Rightarrow> Inl e
      | Inr fs \<Rightarrow>
          (case extractStrokes (n_strokes polygon) of
             Inl e \<Rightarrow> Inl e
           | Inr ss \<Rightarrow>
               Inr (baseData\<lparr> e_fills := Some fs, e_strokes := Some ss,
                              e_strokeWeight := n_strokeWeight polygon,
                              e_shapeType := Some (''polygon-'' @
                                (case n_pointCount polygon of
                                   None \<Rightarrow> ''undefined''
                                 | Some k \<Rightarrow> numberToString rt k)) \<rparr>)))"

definition extractTextContent :: "TextSublayer option \<Rightarrow> JSError + string" where
  "extractTextContent textNode =
     (case textNode of None \<Rightarrow> Inl TypeError | Some (TextSublayer characters) \<Rightarrow> Inr characters)"

definition extractShapeWithTextData :: "SceneProps \<Rightarrow> ExtractedProps \<Rightarrow> JSError + ExtractedProps" where
  "extractShapeWithTextData shape baseData =
     (case extractFills (n_fills shape) of
        Inl e \<Rightarrow> Inl e
      | Inr fs \<Rightarrow>
          (case extractStrokes (n_strokes shape) of
             Inl e \<Rightarrow> Inl e
           | Inr ss \<Rightarrow>
               (case extractTextContent (n_text shape) of
                  Inl e \<Rightarrow> Inl e
                | Inr t \<Rightarrow>
                    Inr (baseData\<lparr> e_shapeType := n_shapeType shape, e_fills := Some fs,
                                   e_strokes := Some ss, e_text := Some t \<rparr>))))"

definition extractStickyData :: "SceneProps \<Rightarrow> ExtractedProps \<Rightarrow> JSError + ExtractedProps" where
  "extractStickyData sticky baseData =
     (case extractFills (n_fills sticky) of
        Inl e \<Rightarrow> Inl e
      | Inr fs \<Rightarrow>
          (case extractTextContent (n_text sticky) of
             Inl e \<Rightarrow> Inl e
           | Inr t \<Rightarrow> Inr (baseData\<lparr> e_fills := Some fs, e_text := Some t \<rparr>)))"

definition extractTextData :: "SceneProps \<Rightarrow> ExtractedProps \<Rightarrow> JSError + ExtractedProps" where
  "extractTextData textNode baseData =
     (case extractFills (n_fills textNode) of
        Inl e \<Rightarrow> Inl e
      | Inr fs \<Rightarrow> Inr (baseData\<lparr> e_text := n_characters textNode, e_fills := Some fs \<rparr>))"

text \<open>
  The object literal that \<^verbatim>\<open>extractConnectorData\<close> writes for each end:
  \<^verbatim>\<open>{x: end.position?.x || 0, y: end.position?.y || 0, endpointNodeId: end.endpointNodeId}\<close>.
\<close>

definition extractEndpoint :: "ConnectorEndpoint option \<Rightarrow> JSError + ExtractedEndpoint" where
  "extractEndpoint endpoint =
     (case endpoint of
        None \<Rightarrow> Inl TypeError
      | Some (ConnectorEndpoint position endpointNodeId) \<Rightarrow>
          Inr (ExtractedEndpoint
                 (orNumber (case position of None \<Rightarrow> None | Some (Vector px py) \<Rightarrow> Some px) 0)
                 (orNumber (case position of None \<Rightarrow> None | Some (Vector px py) \<Rightarrow> Some py) 0)
                 endpointNodeId))"

definition extractConnectorData :: "SceneProps \<Rightarrow> ExtractedProps \<Rightarrow> JSError + ExtractedProps" where
  "extractConnectorData connector baseData =
     (case extractStrokes (n_strokes connector) of
        Inl e \<Rightarrow> Inl e
      | Inr ss \<Rightarrow>
          (case extractEndpoint (n_connectorStart connector) of
             Inl e \<Rightarrow> Inl e
           | Inr cs \<Rightarrow>
               (case extractEndpoint (n_connectorEnd connector) of
                  Inl e \<Rightarrow> Inl e
                | Inr ce \<Rightarrow>
                    Inr (baseData\<lparr> e_strokes := Some ss,
                                   e_strokeWeight := n_strokeWeight connector,
                                   e_connectorStart := Some cs, e_connectorEnd := Some ce \<rparr>))))"

text \<open>A node without children, returned by \<^verbatim>\<open>extractNodeData\<close> (which may also return null).\<close>

definition returnData :: "JSError + ExtractedProps \<Rightarrow> JSError + ExtractedNodeData option" where
  "returnData res = (case res of Inl e \<Rightarrow> Inl e | Inr d \<Rightarrow> Inr (Some (ExtractedNodeData d None)))"

text \<open>
  \<open>extractNodeData\<close> with \<open>extractContainerData\<close>, which calls it back on every child.
  \<open>extractEach\<close> is the loop that both \<^verbatim>\<open>extractContainerData\<close> and
  \<^verbatim>\<open>processSelection\<close> write: \<^verbatim>\<open>for (const n of nodes) { const data = extractNodeData(n);
  if (data) { out.push(data); } }\<close>. Iterating over a missing \<^verbatim>\<open>children\<close> raises.
\<close>

fun extractNodeData :: "JSRuntime \<Rightarrow> SceneNode \<Rightarrow> JSError + ExtractedNodeData option"
  and extractContainerData ::
    "JSRuntime \<Rightarrow> SceneNode list option \<Rightarrow> ExtractedProps \<Rightarrow> JSError + ExtractedNodeData"
  and extractEach :: "JSRuntime \<Rightarrow> SceneNode list \<Rightarrow> JSError + ExtractedNodeData list" where
  "extractNodeData rt (SceneNode node children) =
     (if n_type node = ''RECTANGLE'' then returnData (extractRectangleData node (baseDataOf node))
      else if n_type node = ''ELLIPSE'' then returnData (extractEllipseData node (baseDataOf node))
      else if n_type node = ''POLYGON'' then
        returnData (extractPolygonData rt node (baseDataOf node))
      else if n_type node = ''SHAPE_WITH_TEXT'' then
        returnData (extractShapeWithTextData node (baseDataOf node))
      else if n_type node = ''STICKY'' then returnData (extractStickyData node (baseDataOf node))
      else if n_type node = ''TEXT'' then returnData (extractTextData node (baseDataOf node))
      else if n_type node = ''CONNECTOR'' then
        returnData (extractConnectorData node (baseDataOf node))
      else if n_type node = ''GROUP'' \<or> n_type node = ''FRAME'' then
        (case extractContainerData rt children (baseDataOf node) of
           Inl e \<Rightarrow> Inl e
         | Inr d \<Rightarrow> Inr (Some d))
      else Inr (Some (ExtractedNodeData (baseDataOf node) None)))"
| "extractContainerData rt None baseData = Inl TypeError"
| "extractContainerData rt (Some cs) baseData =
     (case extractEach rt cs of
        Inl e \<Rightarrow> Inl e
      | Inr children \<Rightarrow> Inr (ExtractedNodeData baseData (Some children)))"
| "extractEach rt [] = Inr []"
| "extractEach rt (child # rest) =
     (case extractNodeData rt child of
        Inl e \<Rightarrow> Inl e
      | Inr childData \<Rightarrow>
          (case extractEach rt rest of
             Inl e \<Rightarrow> Inl e
           | Inr out \<Rightarrow>
               Inr (case childData of None \<Rightarrow> out | Some data \<Rightarrow> data # out)))"

subsection \<open>The selection walker (\<^verbatim>\<open>processSelection\<close>)\<close>

record PageInfo =
  pg_name :: string
  pg_width :: number
  pg_height :: number

text \<open>The message that \<^verbatim>\<open>processSelection\<close> posts to the user interface.\<close>

datatype UIMessage =
    ErrorMessage string
  | DataReady "ExtractedNodeData list" PageInfo

text \<open>
  \<open>selection\<close> is \<^verbatim>\<open>figma.currentPage.selection\<close> and \<open>page\<close> the name, width and height of
  \<^verbatim>\<open>figma.currentPage\<close>. Each path posts one message, which is the result.
\<close>

definition processSelection :: "JSRuntime \<Rightarrow> SceneNode list \<Rightarrow> PageInfo \<Rightarrow> UIMessage" where
  "processSelection rt selection page =
     (if length selection = 0 then ErrorMessage ''Please select at least one object to export''
      else
        (case extractEach rt selection of
           Inl error \<Rightarrow> ErrorMessage (''Error processing selection: '' @ errorToString rt error)
         | Inr extractedData \<Rightarrow> DataReady extractedData page))"

subsection \<open>The shape mapper (\<^verbatim>\<open>mapNodeTypeToPPTX\<close>, \<^verbatim>\<open>nodeToShape\<close>)\<close>

text \<open>The object literal \<^verbatim>\<open>mapping\<close>: its own properties, in the order of the source.\<close>

definition mapping :: "(string \<times> string) list" where
  "mapping =
     [(''RECTANGLE'', ''rectangle''),
      (''ELLIPSE'', ''ellipse''),
      (''POLYGON'', ''polygon''),
      (''SHAPE_WITH_TEXT'', ''shape''),
      (''STICKY'', ''textbox''),
      (''TEXT'', ''text''),
      (''CONNECTOR'', ''line''),
      (''GROUP'', ''group''),
      (''FRAME'', ''frame''),
      (''LINE'', ''line'')]"

text \<open>
  The keys that every object literal inherits from \<^verbatim>\<open>Object.prototype\<close>. Their values
  are functions, or the prototype object itself: all truthy, none a string.
\<close>

definition objectPrototypeKeys :: "string list" where
  "objectPrototypeKeys =
     [''constructor'', ''hasOwnProperty'', ''isPrototypeOf'', ''propertyIsEnumerable'',
      ''toLocaleString'', ''toString'', ''valueOf'', ''__proto__'',
      ''__defineGetter__'', ''__defineSetter__'', ''__lookupGetter__'', ''__lookupSetter__'']"

text \<open>
  \<^verbatim>\<open>mapping[nodeType] || 'shape'\<close>: an own property first, then an inherited one, then
  \<^verbatim>\<open>undefined\<close>, which is falsy, as the empty string is.
\<close>

definition mapNodeTypeToPPTX :: "string \<Rightarrow> JSValue" where
  "mapNodeTypeToPPTX nodeType =
     (case map_of mapping nodeType of
        Some v \<Rightarrow> if v \<noteq> [] then Str v else Str ''shape''
      | None \<Rightarrow>
          if nodeType \<in> set objectPrototypeKeys then Inherited nodeType else Str ''shape'')"

record PPTXFill =
  f_type :: string
  f_color :: "Color option"
  f_opacity :: "number option"
  f_gradientStops :: "ExtractedStop list option"

record PPTXStroke =
  s_color :: Color
  s_width :: number
  s_opacity :: "number option"

record ShapeProperties =
  pr_cornerRadius :: "number option"
  pr_shapeType :: "string option"

record PPTXShape =
  sh_type :: JSValue
  sh_position :: "number \<times> number"
  sh_size :: "number \<times> number"
  sh_rotation :: number
  sh_fill :: "PPTXFill option"
  sh_stroke :: "PPTXStroke option"
  sh_text :: "string option"
  sh_properties :: "ShapeProperties option"

text \<open>
  \<^verbatim>\<open>nodeToShape\<close> builds the record with its four required fields, then runs four blocks
  that assign the optional ones; each block is a function here, named after the comment
  that opens it in the source.
\<close>

definition addFill :: "ExtractedProps \<Rightarrow> PPTXShape \<Rightarrow> PPTXShape" where
  "addFill node shape =
     (case e_fills node of
        Some (fill # others) \<Rightarrow>
          (case fill of
             Solid color opacity \<Rightarrow>
               shape\<lparr> sh_fill := Some \<lparr> f_type = ''solid'', f_color = Some color,
                                        f_opacity = Some opacity, f_gradientStops = None \<rparr> \<rparr>
           | Gradient gradientType gradientStops opacity \<Rightarrow>
               shape\<lparr> sh_fill := Some \<lparr> f_type = ''gradient'', f_color = None,
                                        f_opacity = Some opacity,
                                        f_gradientStops = Some gradientStops \<rparr> \<rparr>
           | _ \<Rightarrow> shape)
      | _ \<Rightarrow> shape)"

definition addStroke :: "ExtractedProps \<Rightarrow> PPTXShape \<Rightarrow> PPTXShape" where
  "addStroke node shape =
     (case e_strokes node of
        Some (stroke # others) \<Rightarrow>
          (case e_strokeWeight node of
             None \<Rightarrow> shape
           | Some strokeWeight \<Rightarrow>
               if strokeWeight = 0 then shape
               else
                 (case stroke of
                    Solid color opacity \<Rightarrow>
                      shape\<lparr> sh_stroke := Some \<lparr> s_color = color, s_width = strokeWeight,
                                                 s_opacity = Some opacity \<rparr> \<rparr>
                  | _ \<Rightarrow> shape))
      | _ \<Rightarrow> shape)"

definition addText :: "ExtractedProps \<Rightarrow> PPTXShape \<Rightarrow> PPTXShape" where
  "addText node shape =
     (if truthyString (e_text node) then shape\<lparr> sh_text := e_text node \<rparr> else shape)"

text \<open>\<^verbatim>\<open>{ ...shape.properties, cornerRadius: v }\<close> and the like for \<^verbatim>\<open>shapeType\<close>.\<close>

definition spreadProperties :: "ShapeProperties option \<Rightarrow> ShapeProperties" where
  "spreadProperties props =
     (case props of None \<Rightarrow> \<lparr> pr_cornerRadius = None, pr_shapeType = None \<rparr> | Some q \<Rightarrow> q)"

definition addProperties :: "ExtractedProps \<Rightarrow> PPTXShape \<Rightarrow> PPTXShape" where
  "addProperties node shape =
     (let shape1 =
            (if e_cornerRadius node \<noteq> None
             then shape\<lparr> sh_properties :=
                    Some ((spreadProperties (sh_properties shape))
                            \<lparr> pr_cornerRadius := e_cornerRadius node \<rparr>) \<rparr>
             else shape)
      in if truthyString (e_shapeType node)
         then shape1\<lparr> sh_properties :=
                Some ((spreadProperties (sh_properties shape1))
                        \<lparr> pr_shapeType := e_shapeType node \<rparr>) \<rparr>
         else shape1)"

fun nodeToShape :: "ExtractedNodeData \<Rightarrow> PPTXShape" where
  "nodeToShape (ExtractedNodeData node children) =
     addProperties node (addText node (addStroke node (addFill node
       \<lparr> sh_type = mapNodeTypeToPPTX (e_type node),
         sh_position = (e_x node, e_y node),
         sh_size = (e_width node, e_height node),
         sh_rotation = e_rotation node,
         sh_fill = None, sh_stroke = None, sh_text = None, sh_properties = None \<rparr>)))"

subsection \<open>The XML serialiser (\<^verbatim>\<open>escapeXML\<close>, \<^verbatim>\<open>nodeToXML\<close>)\<close>

text \<open>\<^verbatim>\<open>str.replace(/c/g, rep)\<close> for a one-character pattern \<open>c\<close>.\<close>

definition replaceAll :: "char \<Rightarrow> string \<Rightarrow> string \<Rightarrow> string" where
  "replaceAll c rep str = concat (map (\<lambda>d. if d = c then rep else [d]) str)"

text \<open>
  \<^verbatim>\<open>escapeXML\<close>. What is not a string goes through \<^verbatim>\<open>String(str)\<close> and is returned as it
  is; a string goes through the five replacements in the order of the source. The
  apostrophe is \<open>CHR 0x27\<close>.
\<close>

definition escapeXML :: \<open>JSRuntime \<Rightarrow> JSValue \<Rightarrow> string\<close> where
  \<open>escapeXML rt v =
     (case v of
        Inherited k \<Rightarrow> inheritedToString rt k
      | Str str \<Rightarrow>
          replaceAll (CHR 0x27) ''&apos;''
            (replaceAll (CHR ''"'') ''&quot;''
              (replaceAll (CHR ''>'') ''&gt;''
                (replaceAll (CHR ''<'') ''&lt;''
                  (replaceAll (CHR ''&'') ''&amp;'' str)))))\<close>

text \<open>
  \<^verbatim>\<open>nodeToXML\<close> appends to \<^verbatim>\<open>xml\<close> block after block. Each block is a function here, named
  after the comment that opens it in the source (the first, without a comment, is
  \<open>shapeOpenXML\<close>); \<open>spaces\<close> is the indentation that \<^verbatim>\<open>nodeToXML\<close> computes.
\<close>

definition shapeOpenXML :: \<open>JSRuntime \<Rightarrow> string \<Rightarrow> ExtractedProps \<Rightarrow> string\<close> where
  \<open>shapeOpenXML rt spaces node =
     spaces @ ''<shape>\<newline>'' @
     spaces @ ''  <type>'' @ escapeXML rt (mapNodeTypeToPPTX (e_type node)) @ ''</type>\<newline>'' @
     spaces @ ''  <id>'' @ escapeXML rt (Str (e_id node)) @ ''</id>\<newline>'' @
     spaces @ ''  <name>'' @ escapeXML rt (Str (e_name node)) @ ''</name>\<newline>''\<close>

definition geometryXML :: \<open>JSRuntime \<Rightarrow> string \<Rightarrow> ExtractedProps \<Rightarrow> string\<close> where
  \<open>geometryXML rt spaces node =
     spaces @ ''  <geometry>\<newline>'' @
     spaces @ ''    <position x="'' @ numberToString rt (e_x node) @
       ''" y="'' @ numberToString rt (e_y node) @ ''"/>\<newline>'' @
     spaces @ ''    <size width="'' @ numberToString rt (e_width node) @
       ''" height="'' @ numberToString rt (e_height node) @ ''"/>\<newline>'' @
     spaces @ ''    <rotation degrees="'' @ numberToString rt (e_rotation node) @ ''"/>\<newline>'' @
     spaces @ ''  </geometry>\<newline>''\<close>

fun stopXML :: \<open>JSRuntime \<Rightarrow> string \<Rightarrow> ExtractedStop \<Rightarrow> string\<close> where
  \<open>stopXML rt spaces (ExtractedStop pos (StopColor r g b a)) =
     spaces @ ''      <stop position="'' @ numberToString rt pos @
       ''" r="'' @ numberToString rt (of_int r) @
       ''" g="'' @ numberToString rt (of_int g) @
       ''" b="'' @ numberToString rt (of_int b) @
       ''" a="'' @ numberToString rt a @ ''"/>\<newline>''\<close>

definition fillXML :: \<open>JSRuntime \<Rightarrow> string \<Rightarrow> ExtractedProps \<Rightarrow> string\<close> where
  \<open>fillXML rt spaces node =
     (case e_fills node of
        Some (fill # others) \<Rightarrow>
          spaces @ ''  <fill>\<newline>'' @
          (case fill of
             Solid (Color r g b) opacity \<Rightarrow>
               spaces @ ''    <solid r="'' @ numberToString rt (of_int r) @
                 ''" g="'' @ numberToString rt (of_int g) @
                 ''" b="'' @ numberToString rt (of_int b) @
                 ''" opacity="'' @ numberToString rt (orNumber (Some opacity) 1) @
                 ''"/>\<newline>''
           | Gradient gradientType gradientStops opacity \<Rightarrow>
               spaces @ ''    <gradient type="'' @ gradientType @ ''">\<newline>'' @
               concat (map (stopXML rt spaces) gradientStops) @
               spaces @ ''    </gradient>\<newline>''
           | _ \<Rightarrow> [])
          @ spaces @ ''  </fill>\<newline>''
      | _ \<Rightarrow> [])\<close>

definition strokeXML :: \<open>JSRuntime \<Rightarrow> string \<Rightarrow> ExtractedProps \<Rightarrow> string\<close> where
  \<open>strokeXML rt spaces node =
     (case e_strokes node of
        Some (stroke # others) \<Rightarrow>
          spaces @ ''  <stroke weight="'' @
            numberToString rt (orNumber (e_strokeWeight node) 1) @ ''">\<newline>'' @
          (case stroke of
             Solid (Color r g b) opacity \<Rightarrow>
               spaces @ ''    <color r="'' @ numberToString rt (of_int r) @
                 ''" g="'' @ numberToString rt (of_int g) @
                 ''" b="'' @ numberToString rt (of_int b) @
                 ''" opacity="'' @ numberToString rt (orNumber (Some opacity) 1) @
                 ''"/>\<newline>''
           | _ \<Rightarrow> [])
          @ spaces @ ''  </stroke>\<newline>''
      | _ \<Rightarrow> [])\<close>

definition textXML :: \<open>string \<Rightarrow> ExtractedProps \<Rightarrow> string\<close> where
  \<open>textXML spaces node =
     (case e_text node of
        None \<Rightarrow> []
      | Some t \<Rightarrow>
          if t = [] then []
          else spaces @ ''  <text><![CDATA['' @ t @ '']]></text>\<newline>'')\<close>

definition propertiesXML :: \<open>JSRuntime \<Rightarrow> string \<Rightarrow> ExtractedProps \<Rightarrow> string\<close> where
  \<open>propertiesXML rt spaces node =
     (if e_cornerRadius node \<noteq> None \<or> truthyString (e_shapeType node) then
        spaces @ ''  <properties>\<newline>'' @
        (case e_cornerRadius node of
           None \<Rightarrow> []
         | Some cornerRadius \<Rightarrow>
             spaces @ ''    <cornerRadius>'' @ numberToString rt cornerRadius @
               ''</cornerRadius>\<newline>'') @
        (case e_shapeType node of
           None \<Rightarrow> []
         | Some shapeType \<Rightarrow>
             if shapeType = [] then []
             else spaces @ ''    <shapeType>'' @ escapeXML rt (Str shapeType) @
               ''</shapeType>\<newline>'') @
        spaces @ ''  </properties>\<newline>''
      else [])\<close>

fun nodeToXML :: \<open>JSRuntime \<Rightarrow> ExtractedNodeData \<Rightarrow> nat \<Rightarrow> string\<close> where
  \<open>nodeToXML rt (ExtractedNodeData node children) indent =
     (let spaces = concat (replicate indent ''  '') in
        shapeOpenXML rt spaces node @
        geometryXML rt spaces node @
        fillXML rt spaces node @
        strokeXML rt spaces node @
        textXML spaces node @
        propertiesXML rt spaces node @
        (case children of
           None \<Rightarrow> []
         | Some cs \<Rightarrow>
             if length cs > 0 then
               spaces @ ''  <group>\<newline>'' @
               concat (map (\<lambda>child. nodeToXML rt child (indent + 2)) cs) @
               spaces @ ''  </group>\<newline>''
             else []) @
        spaces @ ''</shape>\<newline>'')\<close>

text \<open>
  \<^verbatim>\<open>toXML\<close>. The text of \<^verbatim>\<open>new Date().toISOString()\<close> is the runtime's; \<^verbatim>\<open>nodes.length\<close> is
  a number.
\<close>

definition toXML :: \<open>JSRuntime \<Rightarrow> ExtractedNodeData list \<Rightarrow> PageInfo \<Rightarrow> string\<close> where
  \<open>toXML rt nodes pageInfo =
     ''<?xml version="1.0" encoding="UTF-8"?>\<newline>'' @
     ''<!-- FigJam to PowerPoint Export -->\<newline>'' @
     ''<presentation xmlns="http://schemas.figjam2pptx.com/presentation">\<newline>'' @
     ''  <metadata>\<newline>'' @
     ''    <exportDate>'' @ dateToISOString rt @ ''</exportDate>\<newline>'' @
     ''    <sourcePage>'' @ escapeXML rt (Str (pg_name pageInfo)) @ ''</sourcePage>\<newline>'' @
     ''    <objectCount>'' @ numberToString rt (of_nat (length nodes)) @
       ''</objectCount>\<newline>'' @
     ''  </metadata>\<newline>'' @
     ''  <slide width="'' @ numberToString rt (pg_width pageInfo) @
       ''" height="'' @ numberToString rt (pg_height pageInfo) @ ''">\<newline>'' @
     concat (map (\<lambda>node. nodeToXML rt node 2) nodes) @
     ''  </slide>\<newline>'' @
     ''</presentation>''\<close>

subsection \<open>The serialiser of the specification\<close>

text \<open>
  The specification asks that all text written into attribute values or element bodies,
  other than inside CDATA blocks, be escaped by five replacements. \<open>escapeChar\<close> makes
  them on one character and \<open>escapedText\<close> on a string, each character once. The functions
  \<open>spec...\<close> below write the elements of the source in the order of the source, and pass
  every string that they write outside CDATA through \<open>escapedText\<close>: the mapped type (when
  it is a string), the identifier, the name, the sub-kind tag of a gradient, the shape
  type, the page name and the export date. The text of a node is written inside CDATA as
  it is. The blocks for the geometry and the stroke write numbers only, and are the
  source's.
\<close>

definition escapeChar :: \<open>char \<Rightarrow> string\<close> where
  \<open>escapeChar c =
     (if c = CHR ''&'' then ''&amp;''
      else if c = CHR ''<'' then ''&lt;''
      else if c = CHR ''>'' then ''&gt;''
      else if c = CHR ''"'' then ''&quot;''
      else if c = CHR 0x27 then ''&apos;''
      else [c])\<close>

definition escapedText :: "string \<Rightarrow> string" where
  "escapedText s = concat (map escapeChar s)"

definition specShapeOpenXML :: \<open>JSRuntime \<Rightarrow> string \<Rightarrow> ExtractedProps \<Rightarrow> string\<close> where
  \<open>specShapeOpenXML rt spaces node =
     spaces @ ''<shape>\<newline>'' @
     spaces @ ''  <type>'' @
       (case mapNodeTypeToPPTX (e_type node) of
          Str pptxType \<Rightarrow> escapedText pptxType
        | Inherited k \<Rightarrow> inheritedToString rt k) @ ''</type>\<newline>'' @
     spaces @ ''  <id>'' @ escapedText (e_id node) @ ''</id>\<newline>'' @
     spaces @ ''  <name>'' @ escapedText (e_name node) @ ''</name>\<newline>''\<close>

definition specFillXML :: \<open>JSRuntime \<Rightarrow> string \<Rightarrow> ExtractedProps \<Rightarrow> string\<close> where
  \<open>specFillXML rt spaces node =
     (case e_fills node of
        Some (fill # others) \<Rightarrow>
          spaces @ ''  <fill>\<newline>'' @
          (case fill of
             Solid (Color r g b) opacity \<Rightarrow>
               spaces @ ''    <solid r="'' @ numberToString rt (of_int r) @
                 ''" g="'' @ numberToString rt (of_int g) @
                 ''" b="'' @ numberToString rt (of_int b) @
                 ''" opacity="'' @ numberToString rt (orNumber (Some opacity) 1) @
                 ''"/>\<newline>''
           | Gradient gradientType gradientStops opacity \<Rightarrow>
               spaces @ ''    <gradient type="'' @ escapedText gradientType @ ''">\<newline>'' @
               concat (map (stopXML rt spaces) gradientStops) @
               spaces @ ''    </gradient>\<newline>''
           | _ \<Rightarrow> [])
          @ spaces @ ''  </fill>\<newline>''
      | _ \<Rightarrow> [])\<close>

definition specTextXML :: \<open>string \<Rightarrow> ExtractedProps \<Rightarrow> string\<close> where
  \<open>specTextXML spaces node =
     (case e_text node of
        None \<Rightarrow> []
      | Some t \<Rightarrow>
          if t = [] then []
          else spaces @ ''  <text><![CDATA['' @ t @ '']]></text>\<newline>'')\<close>

definition specPropertiesXML :: \<open>JSRuntime \<Rightarrow> string \<Rightarrow> ExtractedProps \<Rightarrow> string\<close> where
  \<open>specPropertiesXML rt spaces node =
     (if e_cornerRadius node \<noteq> None \<or> truthyString (e_shapeType node) then
        spaces @ ''  <properties>\<newline>'' @
        (case e_cornerRadius node of
           None \<Rightarrow> []
         | Some cornerRadius \<Rightarrow>
             spaces @ ''    <cornerRadius>'' @ numberToString rt cornerRadius @
               ''</cornerRadius>\<newline>'') @
        (case e_shapeType node of
           None \<Rightarrow> []
         | Some shapeType \<Rightarrow>
             if shapeType = [] then []
             else spaces @ ''    <shapeType>'' @ escapedText shapeType @
               ''</shapeType>\<newline>'') @
        spaces @ ''  </properties>\<newline>''
      else [])\<close>

fun specNodeToXML :: \<open>JSRuntime \<Rightarrow> ExtractedNodeData \<Rightarrow> nat \<Rightarrow> string\<close> where
  \<open>specNodeToXML rt (ExtractedNodeData node children) indent =
     (let spaces = concat (replicate indent ''  '') in
        specShapeOpenXML rt spaces node @
        geometryXML rt spaces node @
        specFillXML rt spaces node @
        strokeXML rt spaces node @
        specTextXML spaces node @
        specPropertiesXML rt spaces node @
        (case children of
           None \<Rightarrow> []
         | Some cs \<Rightarrow>
             if length cs > 0 then
               spaces @ ''  <group>\<newline>'' @
               concat (map (\<lambda>child. specNodeToXML rt child (indent + 2)) cs) @
               spaces @ ''  </group>\<newline>''
             else []) @
        spaces @ ''</shape>\<newline>'')\<close>

definition specToXML :: \<open>JSRuntime \<Rightarrow> ExtractedNodeData list \<Rightarrow> PageInfo \<Rightarrow> string\<close> where
  \<open>specToXML rt nodes pageInfo =
     ''<?xml version="1.0" encoding="UTF-8"?>\<newline>'' @
     ''<!-- FigJam to PowerPoint Export -->\<newline>'' @
     ''<presentation xmlns="http://schemas.figjam2pptx.com/presentation">\<newline>'' @
     ''  <metadata>\<newline>'' @
     ''    <exportDate>'' @ escapedText (dateToISOString rt) @ ''</exportDate>\<newline>'' @
     ''    <sourcePage>'' @ escapedText (pg_name pageInfo) @ ''</sourcePage>\<newline>'' @
     ''    <objectCount>'' @ numberToString rt (of_nat (length nodes)) @
       ''</objectCount>\<newline>'' @
     ''  </metadata>\<newline>'' @
     ''  <slide width="'' @ numberToString rt (pg_width pageInfo) @
       ''" height="'' @ numberToString rt (pg_height pageInfo) @ ''">\<newline>'' @
     concat (map (\<lambda>node. specNodeToXML rt node 2) nodes) @
     ''  </slide>\<newline>'' @
     ''</presentation>''\<close>

text \<open>
  What the serialiser receives. A gradient among the fills of an extracted node carries
  the type tag of a host paint, and the host has four gradient paints (the interface
  \<^verbatim>\<open>GradientPaint\<close> in \<^verbatim>\<open>API_RESEARCH.md\<close>). The text of a date in ISO 8601 is made of
  digits and of the signs below.
\<close>

definition hostGradientTypes :: "string list" where
  "hostGradientTypes =
     [''GRADIENT_LINEAR'', ''GRADIENT_RADIAL'', ''GRADIENT_ANGULAR'', ''GRADIENT_DIAMOND'']"

definition hostPaintTag :: "ExtractedPaint \<Rightarrow> bool" where
  "hostPaintTag paint \<longleftrightarrow>
     (case paint of
        Gradient gradientType gradientStops opacity \<Rightarrow> gradientType \<in> set hostGradientTypes
      | _ \<Rightarrow> True)"

fun hostTagged :: "ExtractedNodeData \<Rightarrow> bool" where
  "hostTagged (ExtractedNodeData node children) \<longleftrightarrow>
     (case e_fills node of None \<Rightarrow> True | Some fills \<Rightarrow> list_all hostPaintTag fills)
     \<and> (case children of None \<Rightarrow> True | Some cs \<Rightarrow> list_all hostTagged cs)"

definition isoDateText :: "string \<Rightarrow> bool" where
  "isoDateText d \<longleftrightarrow> set d \<subseteq> set ''0123456789-+:.TZ''"

subsection \<open>Reference notions and example inputs\<close>

text \<open>
  The decimal text of a natural number, and of an integer: what JavaScript prints for an
  integer-valued number below \<open>10^21\<close>.
\<close>

fun natToString :: "nat \<Rightarrow> string" where
  "natToString n =
     (if n < 10 then [char_of (48 + n)]
      else natToString (n div 10) @ [char_of (48 + n mod 10)])"

definition intToString :: "int \<Rightarrow> string" where
  "intToString k = (if k < 0 then ''-'' @ natToString (nat (- k)) else natToString (nat k))"

text \<open>
  A runtime for the examples. Its number text is JavaScript's on the integers below
  \<open>10^21\<close> only, and the examples print no other number; its text of an inherited member
  is V8's; its text of an exception is cut down to the exception's name; its date is the
  first instant of 2026.
\<close>

definition exampleRuntime :: JSRuntime where
  "exampleRuntime =
     \<lparr> numberToString = (\<lambda>v. intToString \<lfloor>v\<rfloor>),
       inheritedToString = (\<lambda>k. if k = ''__proto__'' then ''[object Object]''
                                 else if k = ''constructor''
                                 then ''function Object() { [native code] }''
                                 else ''function '' @ k @ ''() { [native code] }''),
       errorToString = (\<lambda>e. ''TypeError''),
       dateToISOString = ''2026-01-01T00:00:00.000Z'' \<rparr>"

declare natToString.simps [simp del]


text \<open>
  A structurally valid host node has the properties that its type tag promises in the
  host's typings, which are the ones the extractor dereferences: a solid paint has a
  colour and a gradient paint its stops; a shape with text and a sticky note have a text
  sublayer; a connector has both ends; a group and a frame have children, themselves
  valid.
\<close>

definition validPaint :: "Paint \<Rightarrow> bool" where
  "validPaint fill \<longleftrightarrow>
     (if p_type fill = ''SOLID'' then p_color fill \<noteq> None
      else if p_type fill = ''IMAGE'' then True
      else if prefix ''GRADIENT'' (p_type fill) then p_gradientStops fill \<noteq> None
      else True)"

definition validPaints :: "PaintsProp \<Rightarrow> bool" where
  "validPaints paints \<longleftrightarrow>
     (case paints of Mixed \<Rightarrow> True | NoPaints \<Rightarrow> True | Paints ps \<Rightarrow> list_all validPaint ps)"

fun validNode :: "SceneNode \<Rightarrow> bool" where
  "validNode (SceneNode node children) \<longleftrightarrow>
     (if n_type node = ''RECTANGLE'' \<or> n_type node = ''ELLIPSE'' \<or> n_type node = ''POLYGON''
      then validPaints (n_fills node) \<and> validPaints (n_strokes node)
      else if n_type node = ''SHAPE_WITH_TEXT''
      then validPaints (n_fills node) \<and> validPaints (n_strokes node) \<and> n_text node \<noteq> None
      else if n_type node = ''STICKY'' then validPaints (n_fills node) \<and> n_text node \<noteq> None
      else if n_type node = ''TEXT'' then validPaints (n_fills node)
      else if n_type node = ''CONNECTOR''
      then validPaints (n_strokes node) \<and> n_connectorStart node \<noteq> None
           \<and> n_connectorEnd node \<noteq> None
      else if n_type node = ''GROUP'' \<or> n_type node = ''FRAME''
      then (case children of None \<Rightarrow> False | Some cs \<Rightarrow> list_all validNode cs)
      else True)"

text \<open>The type tags that \<^verbatim>\<open>extractNodeData\<close> has a case for.\<close>

definition supportedTypes :: "string list" where
  "supportedTypes =
     [''RECTANGLE'', ''ELLIPSE'', ''POLYGON'', ''SHAPE_WITH_TEXT'', ''STICKY'', ''TEXT'',
      ''CONNECTOR'', ''GROUP'', ''FRAME'']"

text \<open>
  The rectangle of the specification's scenario: \<^verbatim>\<open>{x:100, y:200, width:300, height:150,
  rotation:0, cornerRadius:8, fills:[{solid, r:1, g:0.39, b:0.2, opacity:1}]}\<close>, without
  strokes.
\<close>

definition scenarioFill :: Paint where
  "scenarioFill =
     \<lparr> p_type = ''SOLID'', p_visible = Some True, p_opacity = Some 1,
       p_color = Some (RGB 1 (39 / 100) (2 / 10)),
       p_imageHash = None, p_scaleMode = None, p_gradientStops = None \<rparr>"

definition scenarioRectangle :: SceneNode where
  "scenarioRectangle =
     SceneNode
       \<lparr> n_id = ''1:2'', n_name = ''Rectangle 1'', n_type = ''RECTANGLE'',
         n_x = 100, n_y = 200, n_width = Some 300, n_height = Some 150,
         n_rotation = Some 0, n_visible = True, n_cornerRadius = Some 8,
         n_fills = Paints [scenarioFill], n_strokes = Paints [], n_strokeWeight = Some 1,
         n_pointCount = None, n_shapeType = None, n_text = None, n_characters = None,
         n_connectorStart = None, n_connectorEnd = None \<rparr>
       None"

text \<open>An extracted node with its base fields only, from which the examples below differ.\<close>

definition exampleProps :: ExtractedProps where
  "exampleProps =
     \<lparr> e_id = ''1:3'', e_name = ''Shape'', e_type = ''SHAPE_WITH_TEXT'',
       e_x = 0, e_y = 0, e_width = 10, e_height = 10, e_rotation = 0, e_visible = True,
       e_fills = None, e_strokes = None, e_strokeWeight = None, e_text = None,
       e_cornerRadius = None, e_shapeType = None,
       e_connectorStart = None, e_connectorEnd = None \<rparr>"

text \<open>
  What \<^verbatim>\<open>extractShapeWithTextData\<close> returns for a shape with an image fill and a black
  stroke: fills and strokes, and no stroke weight.
\<close>

definition imageFilledShape :: ExtractedProps where
  "imageFilledShape =
     exampleProps\<lparr> e_fills := Some [Image (Some ''hash'') (Some ''FILL'') 1],
                    e_strokes := Some [Solid (Color 0 0 0) 1],
                    e_shapeType := Some ''SQUARE'', e_text := Some ''Hi'' \<rparr>"



text \<open>
  A host rectangle with a black stroke, the stroke weight 0 and the corner radius 0, and
  what \<^verbatim>\<open>extractNodeData\<close> returns for it.
\<close>

definition blackPaint :: Paint where
  "blackPaint =
     \<lparr> p_type = ''SOLID'', p_visible = Some True, p_opacity = Some 1,
       p_color = Some (RGB 0 0 0),
       p_imageHash = None, p_scaleMode = None, p_gradientStops = None \<rparr>"

definition zeroWeightRectangle :: SceneNode where
  "zeroWeightRectangle =
     SceneNode
       \<lparr> n_id = ''1:4'', n_name = ''Outline'', n_type = ''RECTANGLE'',
         n_x = 0, n_y = 0, n_width = Some 10, n_height = Some 10,
         n_rotation = Some 0, n_visible = True, n_cornerRadius = Some 0,
         n_fills = Paints [], n_strokes = Paints [blackPaint], n_strokeWeight = Some 0,
         n_pointCount = None, n_shapeType = None, n_text = None, n_characters = None,
         n_connectorStart = None, n_connectorEnd = None \<rparr>
       None"

definition zeroWeightStroke :: ExtractedNodeData where
  "zeroWeightStroke =
     ExtractedNodeData
       \<lparr> e_id = ''1:4'', e_name = ''Outline'', e_type = ''RECTANGLE'',
         e_x = 0, e_y = 0, e_width = 10, e_height = 10, e_rotation = 0, e_visible = True,
         e_fills = Some [], e_strokes = Some [Solid (Color 0 0 0) 1],
         e_strokeWeight = Some 0, e_text = None, e_cornerRadius = Some 0,
         e_shapeType = None, e_connectorStart = None, e_connectorEnd = None \<rparr>
       None"

text \<open>A node with the name and the text of the specification's escaping example.\<close>

definition escapingExample :: \<open>ExtractedProps\<close> where
  \<open>escapingExample =
     exampleProps\<lparr> e_name := ''A & B <test> "quote"'', e_text := Some ''A & B <test> "quote"'',
                    e_shapeType := Some ''A & B'' \<rparr>\<close>

text \<open>
  A frame that holds the scenario's rectangle twice, a stamp (a type tag without a case in
  \<^verbatim>\<open>extractNodeData\<close>), and a page.
\<close>

definition scenarioFrameProps :: SceneProps where
  "scenarioFrameProps =
     \<lparr> n_id = ''1:1'', n_name = ''Frame 1'', n_type = ''FRAME'',
       n_x = 0, n_y = 0, n_width = Some 800, n_height = Some 600,
       n_rotation = Some 0, n_visible = True, n_cornerRadius = None,
       n_fills = Paints [], n_strokes = Paints [], n_strokeWeight = None,
       n_pointCount = None, n_shapeType = None, n_text = None, n_characters = None,
       n_connectorStart = None, n_connectorEnd = None \<rparr>"

definition scenarioFrame :: SceneNode where
  "scenarioFrame = SceneNode scenarioFrameProps (Some [scenarioRectangle, scenarioRectangle])"

definition stampProps :: SceneProps where
  "stampProps =
     \<lparr> n_id = ''1:9'', n_name = ''Stamp'', n_type = ''STAMP'',
       n_x = 5, n_y = 6, n_width = Some 32, n_height = Some 32,
       n_rotation = None, n_visible = True, n_cornerRadius = None,
       n_fills = Paints [scenarioFill], n_strokes = NoPaints, n_strokeWeight = None,
       n_pointCount = None, n_shapeType = None, n_text = None, n_characters = None,
       n_connectorStart = None, n_connectorEnd = None \<rparr>"

definition stampNode :: SceneNode where
  "stampNode = SceneNode stampProps None"

definition examplePage :: PageInfo where
  "examplePage = \<lparr> pg_name = ''Page 1'', pg_width = 1920, pg_height = 1080 \<rparr>"

text \<open>
  Two extracted nodes for the serialisers: one with two fills, two strokes and a stroke
  weight of 2, one with a gradient of two stops and strokes without a weight.
\<close>

definition twoPaints :: ExtractedProps where
  "twoPaints =
     exampleProps\<lparr> e_type := ''RECTANGLE'',
                    e_fills := Some [Solid (Color 255 99 51) 1,
                                     Image (Some ''hash'') (Some ''FILL'') 1],
                    e_strokes := Some [Solid (Color 0 0 0) 1, Solid (Color 9 9 9) 1],
                    e_strokeWeight := Some 2 \<rparr>"

definition twoStops :: ExtractedProps where
  "twoStops =
     exampleProps\<lparr> e_fills := Some [Gradient ''GRADIENT_LINEAR''
                                       [ExtractedStop 0 (StopColor 255 0 0 1),
                                        ExtractedStop 1 (StopColor 0 0 255 1)] 1],
                    e_strokes := Some [Unknown] \<rparr>"

text \<open>
  A frame with the two nodes above as children and the escaping example's name, and a
  page with that name.
\<close>

definition escapingFrame :: ExtractedNodeData where
  "escapingFrame =
     ExtractedNodeData (escapingExample\<lparr> e_type := ''FRAME'', e_text := None \<rparr>)
       (Some [ExtractedNodeData twoStops None, ExtractedNodeData escapingExample None])"

definition escapingPage :: \<open>PageInfo\<close> where
  \<open>escapingPage = \<lparr> pg_name = ''A & B <test> "quote"'', pg_width = 1920, pg_height = 1080 \<rparr>\<close>

section \<open>Auxiliary lemmas\<close>

subsection \<open>Rounding to a double is monotone\<close>


lemma roundHalfEven_lower: "of_int (roundHalfEven x) \<ge> x - 1 / 2"
  unfolding roundHalfEven_def Let_def by (auto; linarith)












subsection \<open>Rounding and paints\<close>






lemma Math_round_scenario:
  "Math_round (jsTimes 1 255) = 255" "Math_round (jsTimes (39 / 100) 255) = 99"
  "Math_round (jsTimes (2 / 10) 255) = 51"
  by code_simp+

lemma extractPaint_solid:
  "p_type fill = ''SOLID'' \<Longrightarrow> p_color fill = Some (RGB r g b) \<Longrightarrow>
   extractPaint fill =
     Inr (Solid (Color (Math_round (jsTimes r 255)) (Math_round (jsTimes g 255))
                       (Math_round (jsTimes b 255)))
                (opacityOrOne fill))"
  by (simp add: extractPaint_def)

lemma extractPaint_valid: "validPaint fill \<Longrightarrow> \<exists>p. extractPaint fill = Inr p"
  by (auto simp: validPaint_def extractPaint_def split: if_splits RGB.splits)

lemma mapRaise_extractPaint_valid:
  "list_all validPaint ps \<Longrightarrow> \<exists>fs. mapRaise extractPaint (filter keep ps) = Inr fs"
proof (induction ps)
  case Nil
  show ?case by simp
next
  case (Cons p ps)
  then obtain fs where fs: "mapRaise extractPaint (filter keep ps) = Inr fs" by auto
  from Cons.prems obtain q where q: "extractPaint p = Inr q"
    using extractPaint_valid by auto
  show ?case by (simp add: fs q)
qed

lemma extractFills_valid: "validPaints paints \<Longrightarrow> \<exists>fs. extractFills paints = Inr fs"
  by (cases paints) (simp_all add: validPaints_def extractFills_def mapRaise_extractPaint_valid)

lemma extractStrokes_valid: "validPaints paints \<Longrightarrow> \<exists>fs. extractStrokes paints = Inr fs"
  by (simp add: extractStrokes_def extractFills_valid)


subsection \<open>The extractor never returns null, and keeps the order\<close>

lemma extractNodeData_not_null: "extractNodeData rt n \<noteq> Inr None"
  by (cases n) (simp add: returnData_def split: sum.splits)

lemma extractEach_map:
  "extractEach rt ns = Inr ds \<Longrightarrow> map (extractNodeData rt) ns = map (\<lambda>d. Inr (Some d)) ds"
proof (induction ns arbitrary: ds)
  case Nil
  then show ?case by simp
next
  case (Cons n ns)
  from Cons.prems obtain cd out where
    cd: "extractNodeData rt n = Inr cd" and out: "extractEach rt ns = Inr out"
    and ds: "ds = (case cd of None \<Rightarrow> out | Some data \<Rightarrow> data # out)"
    by (auto split: sum.splits)
  from cd obtain data where data: "cd = Some data"
    using extractNodeData_not_null [of rt n] by (cases cd) auto
  show ?case
    using Cons.IH [OF out] cd ds data by simp
qed

lemma extractEach_length: "extractEach rt ns = Inr ds \<Longrightarrow> length ds = length ns"
  using extractEach_map [of rt ns ds] by (metis length_map)

lemma extractEach_ok:
  "(\<And>n. n \<in> set ns \<Longrightarrow> \<exists>d. extractNodeData rt n = Inr (Some d))
   \<Longrightarrow> \<exists>ds. extractEach rt ns = Inr ds"
proof (induction ns)
  case Nil
  show ?case by simp
next
  case (Cons n ns)
  then obtain d where d: "extractNodeData rt n = Inr (Some d)" by auto
  from Cons obtain ds where ds: "extractEach rt ns = Inr ds" by auto
  show ?case by (simp add: d ds)
qed

lemma processSelection_data:
  "processSelection rt selection page = DataReady ds page'
   \<Longrightarrow> selection \<noteq> [] \<and> extractEach rt selection = Inr ds \<and> page' = page"
  by (auto simp: processSelection_def split: if_splits sum.splits)

subsection \<open>A valid node is extracted\<close>

lemma valid_shapes:
  "n_type node = ''RECTANGLE'' \<or> n_type node = ''ELLIPSE'' \<or> n_type node = ''POLYGON''
   \<Longrightarrow> validNode (SceneNode node children)
   \<Longrightarrow> (\<exists>fs. extractFills (n_fills node) = Inr fs)
       \<and> (\<exists>ss. extractStrokes (n_strokes node) = Inr ss)"
  by (simp add: extractFills_valid extractStrokes_valid)

lemma valid_shape_with_text:
  "n_type node = ''SHAPE_WITH_TEXT'' \<Longrightarrow> validNode (SceneNode node children)
   \<Longrightarrow> (\<exists>fs. extractFills (n_fills node) = Inr fs)
       \<and> (\<exists>ss. extractStrokes (n_strokes node) = Inr ss)
       \<and> (\<exists>t. extractTextContent (n_text node) = Inr t)"
  by (auto simp add: extractFills_valid extractStrokes_valid extractTextContent_def
      split: TextSublayer.splits)

lemma valid_sticky:
  "n_type node = ''STICKY'' \<Longrightarrow> validNode (SceneNode node children)
   \<Longrightarrow> (\<exists>fs. extractFills (n_fills node) = Inr fs)
       \<and> (\<exists>t. extractTextContent (n_text node) = Inr t)"
  by (auto simp add: extractFills_valid extractTextContent_def split: TextSublayer.splits)

lemma valid_text:
  "n_type node = ''TEXT'' \<Longrightarrow> validNode (SceneNode node children)
   \<Longrightarrow> (\<exists>fs. extractFills (n_fills node) = Inr fs)"
  by (simp add: extractFills_valid)

lemma extractEndpoint_valid: "endpoint \<noteq> None \<Longrightarrow> \<exists>e. extractEndpoint endpoint = Inr e"
  by (auto simp: extractEndpoint_def split: ConnectorEndpoint.splits)

lemma valid_connector:
  "n_type node = ''CONNECTOR'' \<Longrightarrow> validNode (SceneNode node children)
   \<Longrightarrow> (\<exists>ss. extractStrokes (n_strokes node) = Inr ss)
       \<and> (\<exists>a. extractEndpoint (n_connectorStart node) = Inr a)
       \<and> (\<exists>b. extractEndpoint (n_connectorEnd node) = Inr b)"
  by (simp add: extractStrokes_valid extractEndpoint_valid)

lemma valid_container:
  "n_type node = ''GROUP'' \<or> n_type node = ''FRAME'' \<Longrightarrow> validNode (SceneNode node children)
   \<Longrightarrow> \<exists>cs. children = Some cs \<and> list_all validNode cs"
  by (auto split: option.splits)

lemma extractNodeData_valid: "validNode n \<Longrightarrow> \<exists>d. extractNodeData rt n = Inr (Some d)"
proof (induction n)
  case (SceneNode node children)
  note valid = SceneNode.prems
  show ?case
  proof (cases "n_type node \<in> set supportedTypes")
    case False
    then show ?thesis by (simp add: supportedTypes_def)
  next
    case True
    then consider (rect) "n_type node = ''RECTANGLE''"
      | (ell) "n_type node = ''ELLIPSE''"
      | (poly) "n_type node = ''POLYGON''"
      | (swt) "n_type node = ''SHAPE_WITH_TEXT''"
      | (sticky) "n_type node = ''STICKY''"
      | (tx) "n_type node = ''TEXT''"
      | (conn) "n_type node = ''CONNECTOR''"
      | (cont) "n_type node = ''GROUP'' \<or> n_type node = ''FRAME''"
      unfolding supportedTypes_def by fastforce
    then show ?thesis
    proof cases
      case rect
      with valid_shapes [of node children] valid obtain fs ss where
        "extractFills (n_fills node) = Inr fs" "extractStrokes (n_strokes node) = Inr ss"
        by blast
      with rect show ?thesis by (simp add: extractRectangleData_def returnData_def)
    next
      case ell
      with valid_shapes [of node children] valid obtain fs ss where
        "extractFills (n_fills node) = Inr fs" "extractStrokes (n_strokes node) = Inr ss"
        by blast
      with ell show ?thesis by (simp add: extractEllipseData_def returnData_def)
    next
      case poly
      with valid_shapes [of node children] valid obtain fs ss where
        "extractFills (n_fills node) = Inr fs" "extractStrokes (n_strokes node) = Inr ss"
        by blast
      with poly show ?thesis by (simp add: extractPolygonData_def returnData_def)
    next
      case swt
      with valid_shape_with_text [of node children] valid obtain fs ss t where
        "extractFills (n_fills node) = Inr fs" "extractStrokes (n_strokes node) = Inr ss"
        "extractTextContent (n_text node) = Inr t"
        by blast
      with swt show ?thesis by (simp add: extractShapeWithTextData_def returnData_def)
    next
      case sticky
      with valid_sticky [of node children] valid obtain fs t where
        "extractFills (n_fills node) = Inr fs" "extractTextContent (n_text node) = Inr t"
        by blast
      with sticky show ?thesis by (simp add: extractStickyData_def returnData_def)
    next
      case tx
      with valid_text [of node children] valid obtain fs where
        "extractFills (n_fills node) = Inr fs"
        by blast
      with tx show ?thesis by (simp add: extractTextData_def returnData_def)
    next
      case conn
      with valid_connector [of node children] valid obtain ss a b where
        "extractStrokes (n_strokes node) = Inr ss"
        "extractEndpoint (n_connectorStart node) = Inr a"
        "extractEndpoint (n_connectorEnd node) = Inr b"
        by blast
      with conn show ?thesis by (simp add: extractConnectorData_def returnData_def)
    next
      case cont
      with valid_container [of node children] valid obtain cs where
        cs: "children = Some cs" and all: "list_all validNode cs"
        by blast
      have "\<exists>d. extractNodeData rt c = Inr (Some d)" if "c \<in> set cs" for c
        using SceneNode.IH [of cs c] that cs all by (simp add: list_all_iff)
      then obtain ds where "extractEach rt cs = Inr ds"
        using extractEach_ok by blast
      with cont cs show ?thesis by auto
    qed
  qed
qed

lemma validNode_scenarioRectangle: "validNode scenarioRectangle"
  by (simp add: scenarioRectangle_def scenarioFill_def validPaints_def validPaint_def)

lemma validNode_scenarioFrame: "validNode scenarioFrame"
  using validNode_scenarioRectangle by (simp add: scenarioFrame_def scenarioFrameProps_def)

subsection \<open>The blocks of the shape mapper touch one field each\<close>

lemma sh_fill_addStroke: "sh_fill (addStroke node shape) = sh_fill shape"
  by (simp add: addStroke_def split: option.splits list.splits ExtractedPaint.splits)

lemma sh_fill_addText: "sh_fill (addText node shape) = sh_fill shape"
  by (simp add: addText_def)

lemma sh_fill_addProperties: "sh_fill (addProperties node shape) = sh_fill shape"
  by (simp add: addProperties_def Let_def)

lemma sh_stroke_addFill: "sh_stroke (addFill node shape) = sh_stroke shape"
  by (simp add: addFill_def split: option.splits list.splits ExtractedPaint.splits)

lemma sh_stroke_addText: "sh_stroke (addText node shape) = sh_stroke shape"
  by (simp add: addText_def)

lemma sh_stroke_addProperties: "sh_stroke (addProperties node shape) = sh_stroke shape"
  by (simp add: addProperties_def Let_def)

lemma sh_fill_nodeToShape:
  "sh_fill (nodeToShape (ExtractedNodeData node children)) =
     (case e_fills node of
        Some (Solid c op # rest) \<Rightarrow>
          Some \<lparr> f_type = ''solid'', f_color = Some c, f_opacity = Some op,
                 f_gradientStops = None \<rparr>
      | Some (Gradient gt stops op # rest) \<Rightarrow>
          Some \<lparr> f_type = ''gradient'', f_color = None, f_opacity = Some op,
                 f_gradientStops = Some stops \<rparr>
      | _ \<Rightarrow> None)"
  by (simp add: sh_fill_addStroke sh_fill_addText sh_fill_addProperties addFill_def
      split: option.splits list.splits ExtractedPaint.splits)

lemma sh_stroke_nodeToShape:
  "sh_stroke (nodeToShape (ExtractedNodeData node children)) =
     (case e_strokes node of
        Some (Solid c op # rest) \<Rightarrow>
          (case e_strokeWeight node of
             None \<Rightarrow> None
           | Some w \<Rightarrow> if w = 0 then None
                       else Some \<lparr> s_color = c, s_width = w, s_opacity = Some op \<rparr>)
      | _ \<Rightarrow> None)"
  by (simp add: sh_stroke_addFill sh_stroke_addText sh_stroke_addProperties addStroke_def
      split: option.splits list.splits ExtractedPaint.splits)

subsection \<open>Escaping, character by character\<close>

lemma escapeXML_Cons:
  "escapeXML rt (Str (c # s)) = escapeChar c @ escapeXML rt (Str s)"
  by (simp add: escapeXML_def replaceAll_def escapeChar_def)

lemma escapeXML_chars: "escapeXML rt (Str s) = concat (map escapeChar s)"
proof (induction s)
  case Nil
  show ?case by (simp add: escapeXML_def replaceAll_def)
next
  case (Cons c s)
  then show ?case by (simp add: escapeXML_Cons)
qed

lemma escapeChar_clean: \<open>set (escapeChar c) \<inter> {CHR ''<'', CHR ''>'', CHR ''"'', CHR 0x27} = {}\<close>
  by (simp add: escapeChar_def)

lemma escapeXML_clean:
  \<open>set (concat (map escapeChar s)) \<inter> {CHR ''<'', CHR ''>'', CHR ''"'', CHR 0x27} = {}\<close>
  using escapeChar_clean by (induction s) auto

subsection \<open>The serialiser writes what the specification's serialiser writes\<close>

lemma escapeXML_text: "escapeXML rt (Str s) = escapedText s"
  by (simp add: escapedText_def escapeXML_chars)

lemma escapedText_clean:
  \<open>set (escapedText s) \<inter> {CHR ''<'', CHR ''>'', CHR ''"'', CHR 0x27} = {}\<close>
  unfolding escapedText_def by (rule escapeXML_clean)

lemma escapedText_hostGradient: "gt \<in> set hostGradientTypes \<Longrightarrow> escapedText gt = gt"
  by (auto simp: hostGradientTypes_def escapedText_def escapeChar_def)

lemma escapedText_isoDate: "isoDateText d \<Longrightarrow> escapedText d = d"
  unfolding isoDateText_def escapedText_def
  by (induction d) (auto simp: escapeChar_def)

lemma shapeOpenXML_spec: "shapeOpenXML rt spaces node = specShapeOpenXML rt spaces node"
  by (cases "mapNodeTypeToPPTX (e_type node)")
     (simp_all add: shapeOpenXML_def specShapeOpenXML_def escapeXML_text,
      simp add: escapeXML_def)

lemma fillXML_spec:
  "(case e_fills node of None \<Rightarrow> True | Some fills \<Rightarrow> list_all hostPaintTag fills)
   \<Longrightarrow> fillXML rt spaces node = specFillXML rt spaces node"
  by (auto simp: fillXML_def specFillXML_def hostPaintTag_def escapedText_hostGradient
      split: option.splits list.splits ExtractedPaint.splits Color.splits)

lemma textXML_spec: "textXML spaces node = specTextXML spaces node"
  by (simp add: textXML_def specTextXML_def)

lemma propertiesXML_spec: "propertiesXML rt spaces node = specPropertiesXML rt spaces node"
  by (simp add: propertiesXML_def specPropertiesXML_def escapeXML_text split: option.splits)

lemma nodeToXML_spec: "hostTagged n \<Longrightarrow> nodeToXML rt n indent = specNodeToXML rt n indent"
proof (induction n arbitrary: indent)
  case (ExtractedNodeData node children)
  have fills: "(case e_fills node of None \<Rightarrow> True | Some fills \<Rightarrow> list_all hostPaintTag fills)"
    using ExtractedNodeData.prems by simp
  have kids: "concat (map (\<lambda>child. nodeToXML rt child (indent + 2)) cs)
              = concat (map (\<lambda>child. specNodeToXML rt child (indent + 2)) cs)"
    if "children = Some cs" for cs
  proof -
    have "map (\<lambda>child. nodeToXML rt child (indent + 2)) cs
          = map (\<lambda>child. specNodeToXML rt child (indent + 2)) cs"
    proof (rule map_cong [OF refl])
      fix c assume c: "c \<in> set cs"
      with that ExtractedNodeData.prems have "hostTagged c" by (simp add: list_all_iff)
      with c that show "nodeToXML rt c (indent + 2) = specNodeToXML rt c (indent + 2)"
        using ExtractedNodeData.IH [of cs c "indent + 2"] by simp
    qed
    then show ?thesis by (rule arg_cong)
  qed
  show ?case
  proof (cases children)
    case None
    then show ?thesis
      by (simp add: shapeOpenXML_spec fillXML_spec [OF fills] textXML_spec propertiesXML_spec
          Let_def)
  next
    case (Some cs)
    with kids [OF Some] show ?thesis
      by (simp add: shapeOpenXML_spec fillXML_spec [OF fills] textXML_spec propertiesXML_spec
          Let_def)
  qed
qed

lemma toXML_spec:
  assumes "list_all hostTagged nodes" and "isoDateText (dateToISOString rt)"
  shows "toXML rt nodes pageInfo = specToXML rt nodes pageInfo"
proof -
  have "map (\<lambda>node. nodeToXML rt node 2) nodes = map (\<lambda>node. specNodeToXML rt node 2) nodes"
    using assms(1) by (intro map_cong [OF refl] nodeToXML_spec) (simp add: list_all_iff)
  then have "concat (map (\<lambda>node. nodeToXML rt node 2) nodes)
             = concat (map (\<lambda>node. specNodeToXML rt node 2) nodes)"
    by (rule arg_cong)
  then show ?thesis
    using assms(2) by (simp add: toXML_def specToXML_def escapeXML_text escapedText_isoDate)
qed

subsection \<open>The stroke and the fill block away from the stroke weight 0\<close>

lemma strokeXML_weight_set_or_unset:
  \<open>e_strokes node = Some (stroke # others) \<Longrightarrow>
   e_strokeWeight node = Some w \<and> w \<noteq> 0 \<or> e_strokeWeight node = None \<and> w = 1 \<Longrightarrow>
   strokeXML rt spaces node =
     spaces @ ''  <stroke weight="'' @ numberToString rt w @ ''">\<newline>'' @
     (case stroke of
        Solid (Color r g b) opacity \<Rightarrow>
          spaces @ ''    <color r="'' @ numberToString rt (of_int r) @
            ''" g="'' @ numberToString rt (of_int g) @
            ''" b="'' @ numberToString rt (of_int b) @
            ''" opacity="'' @ numberToString rt (orNumber (Some opacity) 1) @
            ''"/>\<newline>''
      | _ \<Rightarrow> []) @
     spaces @ ''  </stroke>\<newline>''\<close>
  by (auto simp add: strokeXML_def orNumber_def)

lemma fillXML_gradient_stops:
  \<open>e_fills node = Some (Gradient gradientType stops opacity # rest) \<Longrightarrow>
   fillXML rt spaces node =
     spaces @ ''  <fill>\<newline>'' @
     spaces @ ''    <gradient type="'' @ gradientType @ ''">\<newline>'' @
     concat (map (stopXML rt spaces) stops) @
     spaces @ ''    </gradient>\<newline>'' @
     spaces @ ''  </fill>\<newline>''\<close>
  by (simp add: fillXML_def)

section \<open>Properties\<close>

subsection \<open>C1: the rectangle scenario\<close>

text \<open>
  C1. A rectangle with corner radius 8 whose only fill is a visible solid paint with
  channels r = 1, g = 0.39, b = 0.2 is extracted, and the shape mapper gives it the type
  \<^verbatim>\<open>"rectangle"\<close>, the fill colour \<open>{r: 255, g: 99, b: 51}\<close> and
  \<^verbatim>\<open>properties.cornerRadius\<close> 8. The green channel is 99: \<open>0.39 * 255 = 99.45\<close>, which
  \<^verbatim>\<open>Math.round\<close> takes down.
\<close>

theorem rectangle_scenario_shape:
  assumes "n_type node = ''RECTANGLE''" and "n_cornerRadius node = Some 8"
    and "n_fills node = Paints [fill]" and "p_visible fill \<noteq> Some False"
    and "p_type fill = ''SOLID''" and "p_color fill = Some (RGB 1 (39 / 100) (2 / 10))"
    and "validPaints (n_strokes node)"
  shows "\<exists>d. extractNodeData rt (SceneNode node children) = Inr (Some d)
             \<and> sh_type (nodeToShape d) = Str ''rectangle''
             \<and> map_option f_color (sh_fill (nodeToShape d)) = Some (Some (Color 255 99 51))
             \<and> map_option pr_cornerRadius (sh_properties (nodeToShape d)) = Some (Some 8)"
proof -
  obtain ss where ss: "extractStrokes (n_strokes node) = Inr ss"
    using assms(7) extractStrokes_valid by blast
  have paint: "extractPaint fill = Inr (Solid (Color 255 99 51) (opacityOrOne fill))"
    using extractPaint_solid [OF assms(5,6)] by (simp only: Math_round_scenario)
  have fills: "extractFills (n_fills node) = Inr [Solid (Color 255 99 51) (opacityOrOne fill)]"
    using assms(3,4) paint by (simp add: extractFills_def)
  let ?d = "ExtractedNodeData
              ((baseDataOf node)\<lparr> e_cornerRadius := Some 8,
                 e_fills := Some [Solid (Color 255 99 51) (opacityOrOne fill)],
                 e_strokes := Some ss, e_strokeWeight := n_strokeWeight node \<rparr>) None"
  have ex: "extractNodeData rt (SceneNode node children) = Inr (Some ?d)"
    using assms(1,2) fills ss by (simp add: extractRectangleData_def returnData_def)
  have ty: "sh_type (nodeToShape ?d) = Str ''rectangle''"
    using assms(1)
    by (simp add: addFill_def addStroke_def addText_def addProperties_def Let_def baseDataOf_def
        mapNodeTypeToPPTX_def mapping_def truthyString_def
        split: option.splits list.splits ExtractedPaint.splits)
  have fl: "map_option f_color (sh_fill (nodeToShape ?d)) = Some (Some (Color 255 99 51))"
    by (simp del: nodeToShape.simps add: sh_fill_nodeToShape)
  have pr: "map_option pr_cornerRadius (sh_properties (nodeToShape ?d)) = Some (Some 8)"
    by (simp add: addFill_def addStroke_def addText_def addProperties_def Let_def baseDataOf_def
        truthyString_def spreadProperties_def
        split: option.splits list.splits ExtractedPaint.splits)
  show ?thesis using ex ty fl pr by blast
qed

text \<open>The scenario's rectangle meets these hypotheses.\<close>

theorem rectangle_scenario_shape_witness:
  "\<exists>d. extractNodeData exampleRuntime scenarioRectangle = Inr (Some d)
        \<and> sh_type (nodeToShape d) = Str ''rectangle''
        \<and> map_option f_color (sh_fill (nodeToShape d)) = Some (Some (Color 255 99 51))
        \<and> map_option pr_cornerRadius (sh_properties (nodeToShape d)) = Some (Some 8)"
  unfolding scenarioRectangle_def
  by (rule rectangle_scenario_shape [where fill = scenarioFill])
     (simp_all add: scenarioFill_def validPaints_def)

text \<open>
  The shape record of the scenario, computed: its fill colour is \<open>{255, 99, 51}\<close> and not
  the \<open>{255, 100, 51}\<close> that the scenario expects.
\<close>

theorem rectangle_scenario_green_is_99:
  "map_sum id (map nodeToShape) (extractEach exampleRuntime [scenarioRectangle]) =
     Inr [\<lparr> sh_type = Str ''rectangle'', sh_position = (100, 200), sh_size = (300, 150),
            sh_rotation = 0,
            sh_fill = Some \<lparr> f_type = ''solid'', f_color = Some (Color 255 99 51),
                             f_opacity = Some 1, f_gradientStops = None \<rparr>,
            sh_stroke = None, sh_text = None,
            sh_properties = Some \<lparr> pr_cornerRadius = Some 8, pr_shapeType = None \<rparr> \<rparr>]
   \<and> Color 255 99 51 \<noteq> Color 255 100 51"
  by code_simp

subsection \<open>C2: the type table\<close>

text \<open>
  C2. The shape mapper's table has ten entries: the nine of the specification and
  \<^verbatim>\<open>LINE\<close>, mapped to \<^verbatim>\<open>"line"\<close>. A tag that is none of the ten and is not a key
  inherited from \<^verbatim>\<open>Object.prototype\<close> is mapped to \<^verbatim>\<open>"shape"\<close>. An inherited key is
  mapped to the inherited member, which is not a string. The mapping does not raise.
\<close>

theorem mapNodeTypeToPPTX_table:
  "mapNodeTypeToPPTX ''RECTANGLE'' = Str ''rectangle''
   \<and> mapNodeTypeToPPTX ''ELLIPSE'' = Str ''ellipse''
   \<and> mapNodeTypeToPPTX ''POLYGON'' = Str ''polygon''
   \<and> mapNodeTypeToPPTX ''SHAPE_WITH_TEXT'' = Str ''shape''
   \<and> mapNodeTypeToPPTX ''STICKY'' = Str ''textbox''
   \<and> mapNodeTypeToPPTX ''TEXT'' = Str ''text''
   \<and> mapNodeTypeToPPTX ''CONNECTOR'' = Str ''line''
   \<and> mapNodeTypeToPPTX ''GROUP'' = Str ''group''
   \<and> mapNodeTypeToPPTX ''FRAME'' = Str ''frame''
   \<and> mapNodeTypeToPPTX ''LINE'' = Str ''line''
   \<and> (t \<notin> {''RECTANGLE'', ''ELLIPSE'', ''POLYGON'', ''SHAPE_WITH_TEXT'', ''STICKY'', ''TEXT'',
             ''CONNECTOR'', ''GROUP'', ''FRAME'', ''LINE''}
        \<and> t \<notin> set objectPrototypeKeys
        \<longrightarrow> mapNodeTypeToPPTX t = Str ''shape'')
   \<and> (t \<in> set objectPrototypeKeys \<longrightarrow> mapNodeTypeToPPTX t = Inherited t)"
  by (simp add: mapNodeTypeToPPTX_def mapping_def objectPrototypeKeys_def)

text \<open>A stamp falls back to \<^verbatim>\<open>"shape"\<close>; the tag \<^verbatim>\<open>toString\<close> finds the inherited method.\<close>

theorem mapNodeTypeToPPTX_table_witness:
  "mapNodeTypeToPPTX ''STAMP'' = Str ''shape''
   \<and> mapNodeTypeToPPTX ''toString'' = Inherited ''toString''"
  using mapNodeTypeToPPTX_table [of "''STAMP''"] mapNodeTypeToPPTX_table [of "''toString''"]
  by (simp add: objectPrototypeKeys_def)

text \<open>\<^verbatim>\<open>LINE\<close> is not one of the nine tags, and it is not mapped to \<^verbatim>\<open>"shape"\<close>.\<close>

theorem mapNodeTypeToPPTX_LINE:
  "''LINE'' \<notin> {''RECTANGLE'', ''ELLIPSE'', ''POLYGON'', ''SHAPE_WITH_TEXT'', ''STICKY'', ''TEXT'',
               ''CONNECTOR'', ''GROUP'', ''FRAME''}
   \<and> mapNodeTypeToPPTX ''LINE'' = Str ''line''
   \<and> mapNodeTypeToPPTX ''LINE'' \<noteq> Str ''shape''"
  by (simp add: mapNodeTypeToPPTX_def mapping_def)

subsection \<open>C3: the first fill and the first stroke\<close>

text \<open>
  C3. The shape record's fill is built from the first fill alone when that fill is solid
  (its colour and opacity) or a gradient (its stops and opacity), whatever follows it; its
  stroke is built from the first stroke alone when that stroke is solid and the node has
  a stroke weight other than 0 (the stroke's colour and opacity, the node's weight). With
  no fills, or an empty sequence, the record has no fill; with no strokes, or an empty
  sequence, it has no stroke.
\<close>

theorem nodeToShape_first_paints:
  "(e_fills node = Some (Solid c op # rest) \<longrightarrow>
      sh_fill (nodeToShape (ExtractedNodeData node children)) =
        Some \<lparr> f_type = ''solid'', f_color = Some c, f_opacity = Some op,
               f_gradientStops = None \<rparr>)
   \<and> (e_fills node = Some (Gradient gt stops gop # grest) \<longrightarrow>
      sh_fill (nodeToShape (ExtractedNodeData node children)) =
        Some \<lparr> f_type = ''gradient'', f_color = None, f_opacity = Some gop,
               f_gradientStops = Some stops \<rparr>)
   \<and> (e_fills node = None \<or> e_fills node = Some [] \<longrightarrow>
      sh_fill (nodeToShape (ExtractedNodeData node children)) = None)
   \<and> (e_strokes node = Some (Solid sc sop # srest) \<and> e_strokeWeight node = Some w \<and> w \<noteq> 0 \<longrightarrow>
      sh_stroke (nodeToShape (ExtractedNodeData node children)) =
        Some \<lparr> s_color = sc, s_width = w, s_opacity = Some sop \<rparr>)
   \<and> (e_strokes node = None \<or> e_strokes node = Some [] \<longrightarrow>
      sh_stroke (nodeToShape (ExtractedNodeData node children)) = None)"
  by (simp del: nodeToShape.simps add: sh_fill_nodeToShape sh_stroke_nodeToShape)

text \<open>
  A node with two fills and two strokes, a node with a gradient, and a node with neither
  fills nor strokes.
\<close>

theorem nodeToShape_first_paints_witness:
  "sh_fill (nodeToShape (ExtractedNodeData twoPaints None)) =
     Some \<lparr> f_type = ''solid'', f_color = Some (Color 255 99 51), f_opacity = Some 1,
            f_gradientStops = None \<rparr>
   \<and> sh_stroke (nodeToShape (ExtractedNodeData twoPaints None)) =
     Some \<lparr> s_color = Color 0 0 0, s_width = 2, s_opacity = Some 1 \<rparr>
   \<and> sh_fill (nodeToShape (ExtractedNodeData twoStops None)) =
     Some \<lparr> f_type = ''gradient'', f_color = None, f_opacity = Some 1,
            f_gradientStops = Some [ExtractedStop 0 (StopColor 255 0 0 1),
                                    ExtractedStop 1 (StopColor 0 0 255 1)] \<rparr>
   \<and> sh_fill (nodeToShape (ExtractedNodeData exampleProps None)) = None
   \<and> sh_stroke (nodeToShape (ExtractedNodeData exampleProps None)) = None"
  using nodeToShape_first_paints
      [of twoPaints "Color 255 99 51" 1 "[Image (Some ''hash'') (Some ''FILL'') 1]" None
          "''g''" "[]" 0 "[]" "Color 0 0 0" 1 "[Solid (Color 9 9 9) 1]" 2]
    nodeToShape_first_paints
      [of twoStops "Color 0 0 0" 0 "[]" None "''GRADIENT_LINEAR''"
          "[ExtractedStop 0 (StopColor 255 0 0 1), ExtractedStop 1 (StopColor 0 0 255 1)]" 1 "[]"
          "Color 0 0 0" 0 "[]" 1]
    nodeToShape_first_paints
      [of exampleProps "Color 0 0 0" 0 "[]" None "''g''" "[]" 0 "[]" "Color 0 0 0" 0 "[]" 1]
  by (simp del: nodeToShape.simps add: twoPaints_def twoStops_def exampleProps_def)

text \<open>
  A shape whose first fill is an image and whose strokes come without a stroke weight (as
  for every shape with text) has fills and strokes, and its record has neither a fill nor
  a stroke.
\<close>

theorem nodeToShape_drops_image_and_unweighted:
  "e_fills imageFilledShape = Some [Image (Some ''hash'') (Some ''FILL'') 1]
   \<and> e_strokes imageFilledShape = Some [Solid (Color 0 0 0) 1]
   \<and> sh_fill (nodeToShape (ExtractedNodeData imageFilledShape None)) = None
   \<and> sh_stroke (nodeToShape (ExtractedNodeData imageFilledShape None)) = None"
  by (simp del: nodeToShape.simps
      add: imageFilledShape_def exampleProps_def sh_fill_nodeToShape sh_stroke_nodeToShape)

subsection \<open>C4: mixed paints\<close>

text \<open>
  C4. For the "mixed" sentinel the paint normaliser returns the empty sequence: it does
  not raise and it returns no item. The same holds for strokes, which go through the
  same function.
\<close>

theorem extractFills_mixed_empty:
  "extractFills Mixed = Inr [] \<and> extractStrokes Mixed = Inr []"
  by (simp add: extractFills_def extractStrokes_def)

subsection \<open>C5: colour channels\<close>



subsection \<open>C6: extraction does not fail\<close>

text \<open>
  C6. \<^verbatim>\<open>extractNodeData\<close> returns a node for every structurally valid host node. For a
  node whose type tag has no case, it returns the base record: identity, geometry (width,
  height and rotation 0 where the host node has none) and visibility, without any of the
  variant fields and without children.
\<close>

theorem extractNodeData_never_fails:
  "(validNode n \<longrightarrow> (\<exists>d. extractNodeData rt n = Inr (Some d)))
   \<and> (n_type node \<notin> set supportedTypes \<longrightarrow>
        (\<exists>d. extractNodeData rt (SceneNode node children) = Inr (Some (ExtractedNodeData d None))
             \<and> e_id d = n_id node \<and> e_name d = n_name node \<and> e_type d = n_type node
             \<and> e_x d = n_x node \<and> e_y d = n_y node
             \<and> e_width d = (case n_width node of Some v \<Rightarrow> v | None \<Rightarrow> 0)
             \<and> e_height d = (case n_height node of Some v \<Rightarrow> v | None \<Rightarrow> 0)
             \<and> e_rotation d = (case n_rotation node of Some v \<Rightarrow> v | None \<Rightarrow> 0)
             \<and> e_visible d = n_visible node
             \<and> e_fills d = None \<and> e_strokes d = None \<and> e_strokeWeight d = None
             \<and> e_text d = None \<and> e_cornerRadius d = None \<and> e_shapeType d = None
             \<and> e_connectorStart d = None \<and> e_connectorEnd d = None))"
proof -
  have "extractNodeData rt (SceneNode node children)
          = Inr (Some (ExtractedNodeData (baseDataOf node) None))"
    if "n_type node \<notin> set supportedTypes"
    using that by (simp add: supportedTypes_def)
  then show ?thesis
    using extractNodeData_valid [of n rt] by (simp add: baseDataOf_def)
qed

text \<open>The scenario's frame is valid; a stamp has a type tag without a case.\<close>

theorem extractNodeData_never_fails_witness:
  "validNode scenarioFrame
   \<and> (\<exists>d. extractNodeData exampleRuntime scenarioFrame = Inr (Some d))
   \<and> n_type stampProps \<notin> set supportedTypes
   \<and> (\<exists>d. extractNodeData exampleRuntime stampNode = Inr (Some (ExtractedNodeData d None))
           \<and> e_id d = ''1:9'' \<and> e_type d = ''STAMP'' \<and> e_rotation d = 0 \<and> e_fills d = None)"
proof -
  have v: "validNode scenarioFrame"
    by (simp add: scenarioFrame_def scenarioFrameProps_def scenarioRectangle_def scenarioFill_def
        validPaints_def validPaint_def)
  have u: "n_type stampProps \<notin> set supportedTypes"
    by (simp add: stampProps_def supportedTypes_def)
  have "\<exists>d. extractNodeData exampleRuntime (SceneNode stampProps None)
               = Inr (Some (ExtractedNodeData d None))
          \<and> e_id d = ''1:9'' \<and> e_type d = ''STAMP'' \<and> e_rotation d = 0 \<and> e_fills d = None"
    using extractNodeData_never_fails [of scenarioFrame exampleRuntime stampProps None] u
    by (simp add: stampProps_def)
  then show ?thesis
    using v u extractNodeData_never_fails [of scenarioFrame exampleRuntime stampProps None]
    by (simp add: stampNode_def)
qed

subsection \<open>C7: the empty selection\<close>

text \<open>
  C7. For the empty selection \<^verbatim>\<open>processSelection\<close> posts the error message that asks for
  a selection, whatever the extractor would do. It never posts an export without nodes.
  For a selection that is not empty, of structurally valid nodes, it posts the export
  with one extracted node for each selected node, in the order of the selection.
\<close>

theorem processSelection_empty_and_order:
  "processSelection rt [] page = ErrorMessage ''Please select at least one object to export''
   \<and> processSelection rt selection page \<noteq> DataReady [] page'
   \<and> (selection \<noteq> [] \<and> list_all validNode selection \<longrightarrow>
        (\<exists>ds. processSelection rt selection page = DataReady ds page
              \<and> map (extractNodeData rt) selection = map (\<lambda>d. Inr (Some d)) ds))"
proof -
  have empty: "processSelection rt [] page
                 = ErrorMessage ''Please select at least one object to export''"
    by (simp add: processSelection_def)
  have nonempty: "processSelection rt selection page \<noteq> DataReady [] page'"
  proof
    assume "processSelection rt selection page = DataReady [] page'"
    then have "selection \<noteq> []" and "extractEach rt selection = Inr []"
      using processSelection_data by blast+
    then show False using extractEach_length by fastforce
  qed
  have order: "\<exists>ds. processSelection rt selection page = DataReady ds page
                  \<and> map (extractNodeData rt) selection = map (\<lambda>d. Inr (Some d)) ds"
    if "selection \<noteq> []" and "list_all validNode selection"
  proof -
    have "\<exists>d. extractNodeData rt n = Inr (Some d)" if "n \<in> set selection" for n
      using that \<open>list_all validNode selection\<close> extractNodeData_valid
      by (simp add: list_all_iff)
    then obtain ds where ds: "extractEach rt selection = Inr ds"
      using extractEach_ok by blast
    with \<open>selection \<noteq> []\<close> have "processSelection rt selection page = DataReady ds page"
      by (simp add: processSelection_def)
    with ds show ?thesis using extractEach_map by blast
  qed
  show ?thesis using empty nonempty order by blast
qed

text \<open>A selection of the scenario's frame and rectangle.\<close>

theorem processSelection_empty_and_order_witness:
  "[scenarioFrame, scenarioRectangle] \<noteq> [] \<and> list_all validNode [scenarioFrame, scenarioRectangle]
   \<and> (\<exists>ds. processSelection exampleRuntime [scenarioFrame, scenarioRectangle] examplePage
               = DataReady ds examplePage
           \<and> [extractNodeData exampleRuntime scenarioFrame,
               extractNodeData exampleRuntime scenarioRectangle] = map (\<lambda>d. Inr (Some d)) ds)"
  using processSelection_empty_and_order
    [of exampleRuntime examplePage "[scenarioFrame, scenarioRectangle]"]
    validNode_scenarioFrame validNode_scenarioRectangle
  by simp

subsection \<open>C8: escaping\<close>

text \<open>
  C8. On a string \<^verbatim>\<open>escapeXML\<close> makes the five replacements of the specification, each
  character of the input being replaced once (so no ampersand of an entity is escaped
  again), and its result holds no \<^verbatim>\<open><\<close>, \<^verbatim>\<open>>\<close>, quotation mark or apostrophe. For every node
  that the serialiser receives, \<^verbatim>\<open>nodeToXML\<close> writes what the serialiser of the
  specification writes: every string outside CDATA escaped so, the text inside CDATA as
  it is. So does \<^verbatim>\<open>toXML\<close> for the page name, the date and the nodes.
\<close>

theorem escapeXML_five_replacements:
  \<open>escapeXML rt (Str s) = escapedText s
   \<and> set (escapeXML rt (Str s)) \<inter> {CHR ''<'', CHR ''>'', CHR ''"'', CHR 0x27} = {}
   \<and> (hostTagged n \<longrightarrow> nodeToXML rt n indent = specNodeToXML rt n indent)
   \<and> (list_all hostTagged nodes \<and> isoDateText (dateToISOString rt) \<longrightarrow>
        toXML rt nodes pageInfo = specToXML rt nodes pageInfo)\<close>
  using escapedText_clean [of s]
  by (simp add: escapeXML_text nodeToXML_spec toXML_spec)

text \<open>
  The escaping example of the specification as a name, a shape type, a text and a page
  name; the frame holds a gradient and the example as children.
\<close>

theorem escapeXML_five_replacements_witness:
  \<open>hostTagged escapingFrame \<and> isoDateText (dateToISOString exampleRuntime)
   \<and> escapeXML exampleRuntime (Str ''A & B <test> "quote"'') =
       ''A &amp; B &lt;test&gt; &quot;quote&quot;''
   \<and> nodeToXML exampleRuntime (ExtractedNodeData escapingExample None) 0 =
       ''<shape>\<newline>'' @
       ''  <type>shape</type>\<newline>'' @
       ''  <id>1:3</id>\<newline>'' @
       ''  <name>A &amp; B &lt;test&gt; &quot;quote&quot;</name>\<newline>'' @
       ''  <geometry>\<newline>'' @
       ''    <position x="0" y="0"/>\<newline>'' @
       ''    <size width="10" height="10"/>\<newline>'' @
       ''    <rotation degrees="0"/>\<newline>'' @
       ''  </geometry>\<newline>'' @
       ''  <text><![CDATA[A & B <test> "quote"]]></text>\<newline>'' @
       ''  <properties>\<newline>'' @
       ''    <shapeType>A &amp; B</shapeType>\<newline>'' @
       ''  </properties>\<newline>'' @
       ''</shape>\<newline>''
   \<and> toXML exampleRuntime [escapingFrame] escapingPage =
       specToXML exampleRuntime [escapingFrame] escapingPage\<close>
proof -
  have tagged: "hostTagged escapingFrame"
    by (simp add: escapingFrame_def escapingExample_def twoStops_def exampleProps_def
        hostPaintTag_def hostGradientTypes_def)
  have plain: "hostTagged (ExtractedNodeData escapingExample None)"
    by (simp add: escapingExample_def exampleProps_def)
  have date: "isoDateText (dateToISOString exampleRuntime)"
    by (simp add: isoDateText_def exampleRuntime_def)
  note A = escapeXML_five_replacements
      [where rt = exampleRuntime and s = \<open>''A & B <test> "quote"''\<close>
         and n = "ExtractedNodeData escapingExample None" and indent = 0
         and nodes = "[escapingFrame]" and pageInfo = escapingPage]
  have esc: \<open>escapeXML exampleRuntime (Str ''A & B <test> "quote"'') =
       ''A &amp; B &lt;test&gt; &quot;quote&quot;''\<close>
    using A [THEN conjunct1] by (simp add: escapedText_def escapeChar_def)
  have spec: \<open>specNodeToXML exampleRuntime (ExtractedNodeData escapingExample None) 0 =
       ''<shape>\<newline>'' @
       ''  <type>shape</type>\<newline>'' @
       ''  <id>1:3</id>\<newline>'' @
       ''  <name>A &amp; B &lt;test&gt; &quot;quote&quot;</name>\<newline>'' @
       ''  <geometry>\<newline>'' @
       ''    <position x="0" y="0"/>\<newline>'' @
       ''    <size width="10" height="10"/>\<newline>'' @
       ''    <rotation degrees="0"/>\<newline>'' @
       ''  </geometry>\<newline>'' @
       ''  <text><![CDATA[A & B <test> "quote"]]></text>\<newline>'' @
       ''  <properties>\<newline>'' @
       ''    <shapeType>A &amp; B</shapeType>\<newline>'' @
       ''  </properties>\<newline>'' @
       ''</shape>\<newline>''\<close>
    by code_simp
  have node: "nodeToXML exampleRuntime (ExtractedNodeData escapingExample None) 0 =
              specNodeToXML exampleRuntime (ExtractedNodeData escapingExample None) 0"
    using A [THEN conjunct2, THEN conjunct2, THEN conjunct1] plain by (rule mp)
  have doc: "toXML exampleRuntime [escapingFrame] escapingPage =
             specToXML exampleRuntime [escapingFrame] escapingPage"
    using A [THEN conjunct2, THEN conjunct2, THEN conjunct2] tagged date by simp
  show ?thesis
    using tagged date esc doc node spec by (simp only:)
qed

subsection \<open>C9: the stroke element at the stroke weight 0\<close>

text \<open>
  C9. The specification has the \<^verbatim>\<open>weight\<close> attribute of the stroke element equal to the
  node's stroke weight when that is set. For a host rectangle with a black stroke and the
  stroke weight 0, the extractor keeps the weight 0 and \<^verbatim>\<open>nodeToXML\<close> writes the weight 1,
  where the text of 0 is \<^verbatim>\<open>0\<close>; the same call writes the corner radius 0 as 0, and the shape
  mapper builds no stroke for this node.
\<close>

theorem stroke_weight_zero_renders_one:
  \<open>extractNodeData exampleRuntime zeroWeightRectangle = Inr (Some zeroWeightStroke)
   \<and> nodeToXML exampleRuntime zeroWeightStroke 0 =
       ''<shape>\<newline>'' @
       ''  <type>rectangle</type>\<newline>'' @
       ''  <id>1:4</id>\<newline>'' @
       ''  <name>Outline</name>\<newline>'' @
       ''  <geometry>\<newline>'' @
       ''    <position x="0" y="0"/>\<newline>'' @
       ''    <size width="10" height="10"/>\<newline>'' @
       ''    <rotation degrees="0"/>\<newline>'' @
       ''  </geometry>\<newline>'' @
       ''  <stroke weight="1">\<newline>'' @
       ''    <color r="0" g="0" b="0" opacity="1"/>\<newline>'' @
       ''  </stroke>\<newline>'' @
       ''  <properties>\<newline>'' @
       ''    <cornerRadius>0</cornerRadius>\<newline>'' @
       ''  </properties>\<newline>'' @
       ''</shape>\<newline>''
   \<and> numberToString exampleRuntime 0 = ''0''
   \<and> sh_stroke (nodeToShape zeroWeightStroke) = None\<close>
  by code_simp

subsection \<open>C10: no null from the extractor\<close>

text \<open>
  C10. \<^verbatim>\<open>extractNodeData\<close> never returns null. Hence an export that \<^verbatim>\<open>processSelection\<close>
  posts has exactly one node for each selected node, in order, and the children of an
  extracted group or frame are exactly the extracted children of the host node, in
  order.
\<close>

theorem extractNodeData_never_null:
  "extractNodeData rt n \<noteq> Inr None
   \<and> (processSelection rt selection page = DataReady ds page' \<longrightarrow>
        length ds = length selection
        \<and> map (extractNodeData rt) selection = map (\<lambda>d. Inr (Some d)) ds)
   \<and> ((n_type node = ''GROUP'' \<or> n_type node = ''FRAME'')
        \<and> extractNodeData rt (SceneNode node (Some cs)) = Inr (Some (ExtractedNodeData d children))
        \<longrightarrow> (\<exists>ks. children = Some ks \<and> length ks = length cs
                  \<and> map (extractNodeData rt) cs = map (\<lambda>k. Inr (Some k)) ks))"
proof -
  have sel: "length ds = length selection
             \<and> map (extractNodeData rt) selection = map (\<lambda>d. Inr (Some d)) ds"
    if "processSelection rt selection page = DataReady ds page'"
    using processSelection_data [OF that] extractEach_map extractEach_length by blast
  have cont: "\<exists>ks. children = Some ks \<and> length ks = length cs
                  \<and> map (extractNodeData rt) cs = map (\<lambda>k. Inr (Some k)) ks"
    if ty: "n_type node = ''GROUP'' \<or> n_type node = ''FRAME''"
      and ex: "extractNodeData rt (SceneNode node (Some cs))
                 = Inr (Some (ExtractedNodeData d children))"
  proof -
    from ty ex obtain ks where "extractEach rt cs = Inr ks" and "children = Some ks"
      by (auto split: sum.splits)
    then show ?thesis using extractEach_map extractEach_length by blast
  qed
  show ?thesis using extractNodeData_not_null sel cont by blast
qed

text \<open>The scenario's frame, selected alone: one node, with two children.\<close>

theorem extractNodeData_never_null_witness:
  "extractNodeData exampleRuntime scenarioFrame \<noteq> Inr None
   \<and> (\<exists>d ks. processSelection exampleRuntime [scenarioFrame] examplePage
                 = DataReady [ExtractedNodeData d (Some ks)] examplePage
             \<and> length ks = 2
             \<and> [extractNodeData exampleRuntime scenarioRectangle,
                 extractNodeData exampleRuntime scenarioRectangle] = map (\<lambda>k. Inr (Some k)) ks)"
proof -
  obtain dd where dd: "extractNodeData exampleRuntime scenarioFrame = Inr (Some dd)"
    using extractNodeData_valid validNode_scenarioFrame by blast
  obtain d children where d: "dd = ExtractedNodeData d children"
    by (cases dd)
  have ty: "n_type scenarioFrameProps = ''GROUP'' \<or> n_type scenarioFrameProps = ''FRAME''"
    by (simp add: scenarioFrameProps_def)
  have ex: "extractNodeData exampleRuntime
              (SceneNode scenarioFrameProps (Some [scenarioRectangle, scenarioRectangle]))
            = Inr (Some (ExtractedNodeData d children))"
    using dd d by (simp only: scenarioFrame_def)
  have ps: "processSelection exampleRuntime [scenarioFrame] examplePage
              = DataReady [ExtractedNodeData d children] examplePage"
    using dd d by (simp add: processSelection_def)
  note inst = extractNodeData_never_null
    [of exampleRuntime scenarioFrame "[scenarioFrame]" examplePage
        "[ExtractedNodeData d children]" examplePage scenarioFrameProps
        "[scenarioRectangle, scenarioRectangle]" d children]
  from inst ty ex obtain ks where
    ch: "children = Some ks" and len: "length ks = 2"
    and mp: "[extractNodeData exampleRuntime scenarioRectangle,
              extractNodeData exampleRuntime scenarioRectangle] = map (\<lambda>k. Inr (Some k)) ks"
    by auto
  have nn: "extractNodeData exampleRuntime scenarioFrame \<noteq> Inr None"
    using inst by (rule conjunct1)
  have "processSelection exampleRuntime [scenarioFrame] examplePage
          = DataReady [ExtractedNodeData d (Some ks)] examplePage
        \<and> length ks = 2
        \<and> [extractNodeData exampleRuntime scenarioRectangle,
            extractNodeData exampleRuntime scenarioRectangle] = map (\<lambda>k. Inr (Some k)) ks"
    using ps ch len mp by simp
  then have "\<exists>ks. processSelection exampleRuntime [scenarioFrame] examplePage
                 = DataReady [ExtractedNodeData d (Some ks)] examplePage
             \<and> length ks = 2
             \<and> [extractNodeData exampleRuntime scenarioRectangle,
                 extractNodeData exampleRuntime scenarioRectangle] = map (\<lambda>k. Inr (Some k)) ks"
    by (rule exI)
  then have "\<exists>d ks. processSelection exampleRuntime [scenarioFrame] examplePage
                 = DataReady [ExtractedNodeData d (Some ks)] examplePage
             \<and> length ks = 2
             \<and> [extractNodeData exampleRuntime scenarioRectangle,
                 extractNodeData exampleRuntime scenarioRectangle] = map (\<lambda>k. Inr (Some k)) ks"
    by (rule exI)
  with nn show ?thesis by (rule conjI)
qed

end
